theory Spec2Isabelle
  imports Complex_Main
begin

section \<open>JavaScript numbers\<close>

text \<open>
  The detector computes with JavaScript numbers. A number is modelled as a real, one of
  the two infinities, or NaN. Rounding to binary64 and the sign of zero are idealised:
  a finite value is a real and there is a single zero (so a quotient by zero takes the
  sign of its numerator). The comparisons and the two arithmetic operators the detector
  uses follow ECMAScript: every comparison with NaN is false, \<open>a >= b\<close> is "neither is
  NaN and not \<open>a < b\<close>", a nonzero finite value divided by zero is an infinity and
  \<open>0 / 0\<close> is NaN.

  The general properties below use a difference or a quotient only as the expression the
  source writes (\<open>num_sub\<close>, \<open>num_div\<close>, \<open>seconds\<close> applied to the operands); none
  of them derives a numeric fact about such a result, so none depends on the results
  being exact. At the concrete inputs (EAR 0.1, -0.1 and 0.3, threshold 0.2, clock readings
  in whole seconds) each operation is exact in binary64 too.
\<close>

datatype number = Fin real | PInf | NInf | NaN

fun num_lt :: "number \<Rightarrow> number \<Rightarrow> bool" where
  "num_lt NaN _ = False"
| "num_lt _ NaN = False"
| "num_lt (Fin a) (Fin b) = (a < b)"
| "num_lt (Fin _) PInf = True"
| "num_lt (Fin _) NInf = False"
| "num_lt PInf _ = False"
| "num_lt NInf NInf = False"
| "num_lt NInf _ = True"

definition num_ge :: "number \<Rightarrow> number \<Rightarrow> bool" where
  "num_ge a b = (a \<noteq> NaN \<and> b \<noteq> NaN \<and> \<not> num_lt a b)"

fun num_sub :: "number \<Rightarrow> number \<Rightarrow> number" where
  "num_sub NaN _ = NaN"
| "num_sub _ NaN = NaN"
| "num_sub (Fin a) (Fin b) = Fin (a - b)"
| "num_sub (Fin _) PInf = NInf"
| "num_sub (Fin _) NInf = PInf"
| "num_sub PInf PInf = NaN"
| "num_sub PInf _ = PInf"
| "num_sub NInf NInf = NaN"
| "num_sub NInf _ = NInf"

fun num_add :: "number \<Rightarrow> number \<Rightarrow> number" where
  "num_add NaN _ = NaN"
| "num_add _ NaN = NaN"
| "num_add (Fin a) (Fin b) = Fin (a + b)"
| "num_add (Fin _) PInf = PInf"
| "num_add (Fin _) NInf = NInf"
| "num_add PInf NInf = NaN"
| "num_add PInf _ = PInf"
| "num_add NInf PInf = NaN"
| "num_add NInf _ = NInf"

fun num_div :: "number \<Rightarrow> number \<Rightarrow> number" where
  "num_div NaN _ = NaN"
| "num_div _ NaN = NaN"
| "num_div (Fin a) (Fin b) =
     (if b = 0 then (if a = 0 then NaN else if 0 < a then PInf else NInf)
      else Fin (a / b))"
| "num_div (Fin _) PInf = Fin 0"
| "num_div (Fin _) NInf = Fin 0"
| "num_div PInf (Fin b) = (if b < 0 then NInf else PInf)"
| "num_div NInf (Fin b) = (if b < 0 then PInf else NInf)"
| "num_div PInf _ = NaN"
| "num_div NInf _ = NaN"

section \<open>Data model\<close>

text \<open>
  \<open>AttentionState\<close>, \<open>AttentionSettings\<close> and \<open>FaceLandmarks\<close> are imported by the
  detector from \<open>./shared/types\<close> and \<open>./attention/faceLandmarks\<close>; the records below
  hold the fields the detector reads.
\<close>

datatype AttentionState = Awake | Drowsy | Microsleep

record Thresholds =
  earThreshold :: number
  drowsySeconds :: number
  microsleepSeconds :: number

record Detectors =
  drowsiness :: bool
  microsleep :: bool

record AttentionSettings =
  enabled :: bool
  thresholds :: Thresholds
  detectors :: Detectors

record FaceLandmarks =
  leftEyeEAR :: number
  rightEyeEAR :: number

text \<open>
  The two payloads handed to \<open>chrome.runtime.sendMessage\<close>: the alert
  (\<open>DROWSINESS_DETECTED\<close>: state, confidence, eyesClosedDuration) and the periodic update
  (\<open>ATTENTION_UPDATE\<close>: state, confidence, earValue, eyesClosedDuration, timestamp).
\<close>

datatype Message =
    DROWSINESS_DETECTED AttentionState number number
  | ATTENTION_UPDATE AttentionState number number number int

fun is_alert :: "Message \<Rightarrow> bool" where
  "is_alert (DROWSINESS_DETECTED _ _ _) = True"
| "is_alert (ATTENTION_UPDATE _ _ _ _ _) = False"

fun is_update :: "Message \<Rightarrow> bool" where
  "is_update (DROWSINESS_DETECTED _ _ _) = False"
| "is_update (ATTENTION_UPDATE _ _ _ _ _) = True"

text \<open>
  The module-level variables of \<open>cameraDetector.ts\<close> (and of the offscreen document, which
  declares the same ones): the tracking state, the debug counters, the messages sent so
  far, and \<open>ticks\<close>, the number of \<open>Date.now()\<close> calls answered so far.
\<close>

record EngineState =
  eyesClosedStartTime :: "int option"
  currentAttentionState :: AttentionState
  closedFrameCount :: nat
  frameCount :: nat
  lastLogTime :: int
  ticks :: nat
  sent :: "Message list"

definition MIN_CLOSED_FRAMES :: nat where
  "MIN_CLOSED_FRAMES = 15"

section \<open>The clock\<close>

text \<open>
  \<open>Date.now()\<close> returns integer milliseconds. The wall clock is a parameter
  \<open>clk :: nat \<Rightarrow> int\<close>: the value returned by the k-th call. Each call advances \<open>ticks\<close>,
  so two calls inside one frame may read different times, as in the source. Nothing is
  assumed about the clock (it need not be monotone).
\<close>

definition Date_now :: "(nat \<Rightarrow> int) \<Rightarrow> EngineState \<Rightarrow> int \<times> EngineState" where
  "Date_now clk s = (clk (ticks s), s\<lparr>ticks := Suc (ticks s)\<rparr>)"

definition seconds :: "int \<Rightarrow> int \<Rightarrow> number" where
  \<comment> \<open>\<open>(now - start) / 1000\<close>\<close>
  "seconds now start = Fin (real_of_int (now - start) / 1000)"

section \<open>determineAttentionState\<close>

definition determineAttentionState ::
  "(nat \<Rightarrow> int) \<Rightarrow> number \<Rightarrow> AttentionSettings \<Rightarrow> EngineState \<Rightarrow> AttentionState \<times> EngineState" where
  "determineAttentionState clk ear settings s =
     (let (now, s1) = Date_now clk s in
      if num_lt ear (earThreshold (thresholds settings)) then
        let s2 = s1\<lparr>closedFrameCount := closedFrameCount s1 + 1\<rparr> in
        if closedFrameCount s2 \<ge> MIN_CLOSED_FRAMES then
          let (start, s3) =
                (case eyesClosedStartTime s2 of
                   None \<Rightarrow> (now, s2\<lparr>eyesClosedStartTime := Some now\<rparr>)
                 | Some t \<Rightarrow> (t, s2));
              closedDuration = seconds now start
          in
          if microsleep (detectors settings)
             \<and> num_ge closedDuration (microsleepSeconds (thresholds settings))
          then (Microsleep, s3)
          else if drowsiness (detectors settings)
             \<and> num_ge closedDuration (drowsySeconds (thresholds settings))
          then (Drowsy, s3)
          else (Awake, s3)
        else (Awake, s2)
      else
        (Awake, s1\<lparr>closedFrameCount := 0, eyesClosedStartTime := None\<rparr>))"

section \<open>Messages\<close>

text \<open>
  \<open>chrome.runtime.sendMessage\<close> hands a payload to the extension's background script. It
  is modelled as appending the payload to \<open>sent\<close>, the list of everything sent so far, in
  the order of the calls.
\<close>

definition sendMessage :: "Message \<Rightarrow> EngineState \<Rightarrow> EngineState" where
  "sendMessage m s = s\<lparr>sent := sent s @ [m]\<rparr>"

definition triggerDrowsinessAlert ::
  "AttentionState \<Rightarrow> number \<Rightarrow> number \<Rightarrow> EngineState \<Rightarrow> EngineState" where
  "triggerDrowsinessAlert state confidence duration s =
     sendMessage (DROWSINESS_DETECTED state confidence duration) s"

text \<open>
  \<open>eyesClosedStartTime ? (Date.now() - eyesClosedStartTime) / 1000 : 0\<close>: the test is
  JavaScript truthiness, so both \<open>null\<close> and the timestamp \<open>0\<close> take the \<open>0\<close> branch,
  and the clock is read only in the other branch.
\<close>

definition eyesClosedDurationOrZero ::
  "(nat \<Rightarrow> int) \<Rightarrow> EngineState \<Rightarrow> number \<times> EngineState" where
  "eyesClosedDurationOrZero clk s =
     (case eyesClosedStartTime s of
        None \<Rightarrow> (Fin 0, s)
      | Some t \<Rightarrow>
          if t = 0 then (Fin 0, s)
          else (let (now, s1) = Date_now clk s in (seconds now t, s1)))"

definition sendAttentionUpdate ::
  "(nat \<Rightarrow> int) \<Rightarrow> AttentionState \<Rightarrow> number \<Rightarrow> EngineState \<Rightarrow> EngineState" where
  "sendAttentionUpdate clk state ear s =
     (let (duration, s1) = eyesClosedDurationOrZero clk s;
          (timestamp, s2) = Date_now clk s1
      in sendMessage (ATTENTION_UPDATE state (Fin (85 / 100)) ear duration timestamp) s2)"

section \<open>handleLandmarks\<close>

text \<open>
  \<open>handleLandmarks\<close> is the same function in \<open>cameraDetector.ts\<close> and in the offscreen
  document, up to the text of its log lines. It is split here into its three parts in
  source order: the frame counter with its log line every 30th frame (\<open>logFrame\<close>; the
  logging is kept only as far as it touches the state, which is the clock reading stored
  in \<open>lastLogTime\<close>), the branch taken when \<open>landmarks\<close> is \<open>null\<close> (\<open>noFaceBranch\<close>),
  and the rest of the body (\<open>faceBranch\<close>). The settings are the snapshot
  \<open>getAttentionSettings()\<close> returned for the frame. \<open>computeAverageEAR\<close> lives in
  \<open>./attention/ear\<close>, outside the files at hand; it is the parameter \<open>cae\<close>. The body
  contains no \<open>throw\<close>, so the enclosing \<open>try\<close>/\<open>catch\<close> has no branch of its own.
\<close>

definition noFaceBranch ::
  "(nat \<Rightarrow> int) \<Rightarrow> AttentionSettings \<Rightarrow> EngineState \<Rightarrow> EngineState" where
  "noFaceBranch clk settings s =
     (let s1 = s\<lparr>closedFrameCount := closedFrameCount s + 1\<rparr> in
      if closedFrameCount s1 \<ge> MIN_CLOSED_FRAMES then
        let (start, s2) =
              (case eyesClosedStartTime s1 of
                 None \<Rightarrow> (let (t, s') = Date_now clk s1
                          in (t, s'\<lparr>eyesClosedStartTime := Some t\<rparr>))
               | Some t \<Rightarrow> (t, s1));
            (now, s3) = Date_now clk s2;
            closedDuration = seconds now start
        in
        if num_ge closedDuration (microsleepSeconds (thresholds settings)) then
          (if currentAttentionState s3 \<noteq> Microsleep
           then triggerDrowsinessAlert Microsleep (Fin (99 / 100)) closedDuration
                  (s3\<lparr>currentAttentionState := Microsleep\<rparr>)
           else s3)
        else if num_ge closedDuration (drowsySeconds (thresholds settings)) then
          (if currentAttentionState s3 \<noteq> Drowsy
           then triggerDrowsinessAlert Drowsy (Fin (94 / 100)) closedDuration
                  (s3\<lparr>currentAttentionState := Drowsy\<rparr>)
           else s3)
        else s3
      else s1)"

definition faceBranch ::
  "(nat \<Rightarrow> int) \<Rightarrow> number \<Rightarrow> AttentionSettings \<Rightarrow> EngineState \<Rightarrow> EngineState" where
  "faceBranch clk ear settings s =
     (let (newState, s1) = determineAttentionState clk ear settings s;
          s2 = (if newState \<noteq> currentAttentionState s1
                   \<and> (newState = Drowsy \<or> newState = Microsleep)
                then (let (eyesClosedDuration, s') = eyesClosedDurationOrZero clk s1
                      in triggerDrowsinessAlert newState
                           (num_sub (Fin 1) (num_div ear (earThreshold (thresholds settings))))
                           eyesClosedDuration s')
                else s1);
          s3 = s2\<lparr>currentAttentionState := newState\<rparr>
      in sendAttentionUpdate clk (currentAttentionState s3) ear s3)"

definition logFrame :: "(nat \<Rightarrow> int) \<Rightarrow> EngineState \<Rightarrow> EngineState" where
  "logFrame clk s =
     (let s1 = s\<lparr>frameCount := frameCount s + 1\<rparr> in
      if frameCount s1 mod 30 = 0
      then (let (now, s2) = Date_now clk s1 in s2\<lparr>lastLogTime := now\<rparr>)
      else s1)"

definition handleLandmarks ::
  "(nat \<Rightarrow> int) \<Rightarrow> (number \<Rightarrow> number \<Rightarrow> number) \<Rightarrow>
   FaceLandmarks option \<Rightarrow> AttentionSettings \<Rightarrow> EngineState \<Rightarrow> EngineState" where
  "handleLandmarks clk cae landmarks settings s =
     (let s1 = logFrame clk s in
      if \<not> enabled settings then s1
      else (case landmarks of
              None \<Rightarrow> noFaceBranch clk settings s1
            | Some lm \<Rightarrow>
                faceBranch clk (cae (leftEyeEAR lm) (rightEyeEAR lm)) settings s1))"

text \<open>
  The state at module load: \<open>lastLogTime = Date.now()\<close> is the first clock reading.
\<close>

definition initialState :: "(nat \<Rightarrow> int) \<Rightarrow> EngineState" where
  "initialState clk =
     \<lparr>eyesClosedStartTime = None, currentAttentionState = Awake, closedFrameCount = 0,
      frameCount = 0, lastLogTime = clk 0, ticks = 1, sent = []\<rparr>"

text \<open>
  Frames arrive in order, each with the settings snapshot read for it; \<open>run\<close> processes a
  list of them, one to completion before the next.
\<close>

type_synonym Frame = "FaceLandmarks option \<times> AttentionSettings"

fun run ::
  "(nat \<Rightarrow> int) \<Rightarrow> (number \<Rightarrow> number \<Rightarrow> number) \<Rightarrow> Frame list \<Rightarrow> EngineState \<Rightarrow> EngineState" where
  "run clk cae [] s = s"
| "run clk cae (f # fs) s = run clk cae fs (handleLandmarks clk cae (fst f) (snd f) s)"

section \<open>Vocabulary for the properties\<close>

text \<open>The messages sent between a state and a later one.\<close>

definition emitted :: "EngineState \<Rightarrow> EngineState \<Rightarrow> Message list" where
  "emitted s s' = drop (length (sent s)) (sent s')"

fun confidenceOf :: "Message \<Rightarrow> number" where
  "confidenceOf (DROWSINESS_DETECTED _ c _) = c"
| "confidenceOf (ATTENTION_UPDATE _ c _ _ _) = c"

text \<open>
  The closed duration the no-face branch computes, read off the state it starts from:
  when nothing is latched yet the branch reads the clock twice, once to latch and once
  for \<open>now\<close>.
\<close>

definition noFaceDuration :: "(nat \<Rightarrow> int) \<Rightarrow> EngineState \<Rightarrow> number" where
  "noFaceDuration clk s =
     (case eyesClosedStartTime s of
        None \<Rightarrow> seconds (clk (Suc (ticks s))) (clk (ticks s))
      | Some t \<Rightarrow> seconds (clk (ticks s)) t)"

text \<open>
  The \<open>eyesClosedDuration\<close> an update carries, read off the state after the frame: the
  update's own \<open>Date.now()\<close> is the last reading but one (the last is its timestamp).
\<close>

definition reportedDuration :: "(nat \<Rightarrow> int) \<Rightarrow> EngineState \<Rightarrow> number" where
  "reportedDuration clk s' =
     (case eyesClosedStartTime s' of
        None \<Rightarrow> Fin 0
      | Some t \<Rightarrow> if t = 0 then Fin 0 else seconds (clk (ticks s' - 2)) t)"

text \<open>The alert, if any, that the face branch sends before its update.\<close>

definition faceAlerts ::
  "(nat \<Rightarrow> int) \<Rightarrow> number \<Rightarrow> AttentionSettings \<Rightarrow> EngineState \<Rightarrow> Message list" where
  "faceAlerts clk ear stg s =
     (let newState = fst (determineAttentionState clk ear stg s) in
      if newState \<noteq> currentAttentionState s \<and> (newState = Drowsy \<or> newState = Microsleep)
      then [DROWSINESS_DETECTED newState
              (num_sub (Fin 1) (num_div ear (earThreshold (thresholds stg))))
              (fst (eyesClosedDurationOrZero clk (snd (determineAttentionState clk ear stg s))))]
      else [])"

text \<open>
  How the engine counts a frame, read off the branch conditions of \<open>handleLandmarks\<close> and
  \<open>determineAttentionState\<close>: a frame is counted closed when the master flag is set and
  either no face was found or the averaged EAR is below \<open>earThreshold\<close>; it is counted
  open when the master flag is set, a face was found and the comparison fails. A frame
  that arrives while the master flag is off is skipped and is neither.
\<close>

definition countsClosed :: "(number \<Rightarrow> number \<Rightarrow> number) \<Rightarrow> Frame \<Rightarrow> bool" where
  "countsClosed cae f =
     (enabled (snd f) \<and>
      (case fst f of
         None \<Rightarrow> True
       | Some lm \<Rightarrow> num_lt (cae (leftEyeEAR lm) (rightEyeEAR lm)) (earThreshold (thresholds (snd f)))))"

definition countsOpen :: "(number \<Rightarrow> number \<Rightarrow> number) \<Rightarrow> Frame \<Rightarrow> bool" where
  "countsOpen cae f =
     (enabled (snd f) \<and>
      (case fst f of
         None \<Rightarrow> False
       | Some lm \<Rightarrow> \<not> num_lt (cae (leftEyeEAR lm) (rightEyeEAR lm)) (earThreshold (thresholds (snd f)))))"

text \<open>
  What a frame shows, whatever the master flag: a face whose averaged EAR is not below
  \<open>earThreshold\<close>. A frame counted open is one that shows open eyes and is processed
  with the master flag set.
\<close>

definition showsOpenEyes :: "(number \<Rightarrow> number \<Rightarrow> number) \<Rightarrow> Frame \<Rightarrow> bool" where
  "showsOpenEyes cae f =
     (case fst f of
        None \<Rightarrow> False
      | Some lm \<Rightarrow> \<not> num_lt (cae (leftEyeEAR lm) (rightEyeEAR lm)) (earThreshold (thresholds (snd f))))"

text \<open>
  The closure streak of a frame list: the number of frames counted closed since the last
  frame counted open (skipped frames in between do not count and do not break it).
\<close>

definition streak :: "(number \<Rightarrow> number \<Rightarrow> number) \<Rightarrow> Frame list \<Rightarrow> nat" where
  "streak cae frs =
     length (filter (countsClosed cae) (takeWhile (\<lambda>f. \<not> countsOpen cae f) (rev frs)))"

fun durationOf :: "Message \<Rightarrow> number" where
  "durationOf (DROWSINESS_DETECTED _ _ d) = d"
| "durationOf (ATTENTION_UPDATE _ _ _ d _) = d"

text \<open>
  What holds of the tracking variables in every state the engine can reach.
\<close>

definition tracking_inv :: "EngineState \<Rightarrow> bool" where
  "tracking_inv s =
     ((eyesClosedStartTime s \<noteq> None) = (MIN_CLOSED_FRAMES \<le> closedFrameCount s)
      \<and> (currentAttentionState s = Awake \<or> MIN_CLOSED_FRAMES \<le> closedFrameCount s))"

section \<open>Concrete inputs\<close>

text \<open>
  Modelled from the spec: \<open>computeAverageEAR\<close> (module \<open>./attention/ear\<close>) is described as
  the arithmetic mean of the two per-eye values. It is used only to instantiate the
  parameter \<open>cae\<close> at concrete inputs.
\<close>

definition computeAverageEAR :: "number \<Rightarrow> number \<Rightarrow> number" where
  "computeAverageEAR l r = num_div (num_add l r) (Fin 2)"

text \<open>
  The settings of the spec's scenario (\<open>earThreshold = 0.2\<close>, \<open>drowsySeconds = 2\<close>,
  \<open>microsleepSeconds = 5\<close>, everything enabled), and a clock that advances one second at
  each reading.
\<close>

definition scenarioSettings :: AttentionSettings where
  "scenarioSettings =
     \<lparr>enabled = True,
      thresholds = \<lparr>earThreshold = Fin (2 / 10), drowsySeconds = Fin 2, microsleepSeconds = Fin 5\<rparr>,
      detectors = \<lparr>drowsiness = True, microsleep = True\<rparr>\<rparr>"

definition secondClock :: "nat \<Rightarrow> int" where
  "secondClock k = 1000 * int k"

definition closedEyes :: FaceLandmarks where
  "closedEyes = \<lparr>leftEyeEAR = Fin (1 / 10), rightEyeEAR = Fin (1 / 10)\<rparr>"

definition openEyes :: FaceLandmarks where
  "openEyes = \<lparr>leftEyeEAR = Fin (3 / 10), rightEyeEAR = Fin (3 / 10)\<rparr>"

definition negativeEyes :: FaceLandmarks where
  "negativeEyes = \<lparr>leftEyeEAR = Fin (- 1 / 10), rightEyeEAR = Fin (- 1 / 10)\<rparr>"

definition nanEyes :: FaceLandmarks where
  "nanEyes = \<lparr>leftEyeEAR = NaN, rightEyeEAR = Fin (1 / 10)\<rparr>"

text \<open>Variants of the scenario settings with one flag changed.\<close>

definition microsleepOff :: AttentionSettings where
  "microsleepOff = scenarioSettings\<lparr>detectors := \<lparr>drowsiness = True, microsleep = False\<rparr>\<rparr>"

definition drowsinessOff :: AttentionSettings where
  "drowsinessOff = scenarioSettings\<lparr>detectors := \<lparr>drowsiness = False, microsleep = True\<rparr>\<rparr>"

definition masterOff :: AttentionSettings where
  "masterOff = scenarioSettings\<lparr>enabled := False\<rparr>"

text \<open>The state after a list of frames, from module load, on the one-second clock.\<close>

definition exampleRun :: "Frame list \<Rightarrow> EngineState" where
  "exampleRun frs = run secondClock computeAverageEAR frs (initialState secondClock)"

text \<open>
  Fourteen closed frames, then a frame that shows open eyes but arrives while the master
  flag is off.
\<close>

definition blinkHistory :: "Frame list" where
  "blinkHistory = replicate 14 (Some closedEyes, scenarioSettings) @ [(Some openEyes, masterOff)]"

section \<open>What each function does to the state\<close>

lemma logFrame_fields [simp]:
  "eyesClosedStartTime (logFrame clk s) = eyesClosedStartTime s"
  "currentAttentionState (logFrame clk s) = currentAttentionState s"
  "closedFrameCount (logFrame clk s) = closedFrameCount s"
  "sent (logFrame clk s) = sent s"
  by (simp_all add: logFrame_def Date_now_def Let_def)

lemma Date_now_fields [simp]:
  "fst (Date_now clk s) = clk (ticks s)"
  "eyesClosedStartTime (snd (Date_now clk s)) = eyesClosedStartTime s"
  "currentAttentionState (snd (Date_now clk s)) = currentAttentionState s"
  "closedFrameCount (snd (Date_now clk s)) = closedFrameCount s"
  "sent (snd (Date_now clk s)) = sent s"
  "ticks (snd (Date_now clk s)) = Suc (ticks s)"
  by (simp_all add: Date_now_def)

lemma dAS_fst:
  "fst (determineAttentionState clk ear stg s) =
     (if num_lt ear (earThreshold (thresholds stg)) \<and> MIN_CLOSED_FRAMES \<le> closedFrameCount s + 1 then
        (let d = seconds (clk (ticks s)) (case eyesClosedStartTime s of None \<Rightarrow> clk (ticks s) | Some t \<Rightarrow> t) in
         if microsleep (detectors stg) \<and> num_ge d (microsleepSeconds (thresholds stg)) then Microsleep
         else if drowsiness (detectors stg) \<and> num_ge d (drowsySeconds (thresholds stg)) then Drowsy
         else Awake)
      else Awake)"
  by (auto simp add: determineAttentionState_def Let_def split_def split: option.splits)

lemma dAS_snd [simp]:
  "sent (snd (determineAttentionState clk ear stg s)) = sent s"
  "currentAttentionState (snd (determineAttentionState clk ear stg s)) = currentAttentionState s"
  "ticks (snd (determineAttentionState clk ear stg s)) = Suc (ticks s)"
  "closedFrameCount (snd (determineAttentionState clk ear stg s)) =
     (if num_lt ear (earThreshold (thresholds stg)) then closedFrameCount s + 1 else 0)"
  "eyesClosedStartTime (snd (determineAttentionState clk ear stg s)) =
     (if num_lt ear (earThreshold (thresholds stg)) then
        (if MIN_CLOSED_FRAMES \<le> closedFrameCount s + 1 then
           (case eyesClosedStartTime s of None \<Rightarrow> Some (clk (ticks s)) | Some t \<Rightarrow> Some t)
         else eyesClosedStartTime s)
      else None)"
  by (simp_all add: determineAttentionState_def Let_def split_def split: option.splits)


lemma eCDOZ_fields [simp]:
  "eyesClosedStartTime (snd (eyesClosedDurationOrZero clk s)) = eyesClosedStartTime s"
  "currentAttentionState (snd (eyesClosedDurationOrZero clk s)) = currentAttentionState s"
  "closedFrameCount (snd (eyesClosedDurationOrZero clk s)) = closedFrameCount s"
  "sent (snd (eyesClosedDurationOrZero clk s)) = sent s"
  by (simp_all add: eyesClosedDurationOrZero_def Let_def split_def split: option.splits)

lemma eCDOZ_fst:
  "fst (eyesClosedDurationOrZero clk s) =
     (case eyesClosedStartTime s of None \<Rightarrow> Fin 0
      | Some t \<Rightarrow> if t = 0 then Fin 0 else seconds (clk (ticks s)) t)"
  by (simp add: eyesClosedDurationOrZero_def Let_def split_def split: option.splits)

lemma eCDOZ_ticks:
  "ticks (snd (eyesClosedDurationOrZero clk s)) =
     (case eyesClosedStartTime s of None \<Rightarrow> ticks s
      | Some t \<Rightarrow> if t = 0 then ticks s else Suc (ticks s))"
  by (simp add: eyesClosedDurationOrZero_def Let_def split_def split: option.splits)

lemma sendAttentionUpdate_fields [simp]:
  "eyesClosedStartTime (sendAttentionUpdate clk st ear s) = eyesClosedStartTime s"
  "currentAttentionState (sendAttentionUpdate clk st ear s) = currentAttentionState s"
  "closedFrameCount (sendAttentionUpdate clk st ear s) = closedFrameCount s"
  by (simp_all add: sendAttentionUpdate_def sendMessage_def Let_def split_def)

lemma sendAttentionUpdate_sent:
  "sent (sendAttentionUpdate clk st ear s) =
     sent s @ [ATTENTION_UPDATE st (Fin (85 / 100)) ear
                 (fst (eyesClosedDurationOrZero clk s))
                 (clk (ticks (snd (eyesClosedDurationOrZero clk s))))]"
  by (simp add: sendAttentionUpdate_def sendMessage_def Let_def split_def)

lemma sendAttentionUpdate_ticks:
  "ticks (sendAttentionUpdate clk st ear s) = Suc (ticks (snd (eyesClosedDurationOrZero clk s)))"
  by (simp add: sendAttentionUpdate_def sendMessage_def Let_def split_def)

lemma triggerDrowsinessAlert_fields [simp]:
  "eyesClosedStartTime (triggerDrowsinessAlert st c d s) = eyesClosedStartTime s"
  "currentAttentionState (triggerDrowsinessAlert st c d s) = currentAttentionState s"
  "closedFrameCount (triggerDrowsinessAlert st c d s) = closedFrameCount s"
  "ticks (triggerDrowsinessAlert st c d s) = ticks s"
  "sent (triggerDrowsinessAlert st c d s) = sent s @ [DROWSINESS_DETECTED st c d]"
  by (simp_all add: triggerDrowsinessAlert_def sendMessage_def)

lemma noFaceBranch_count [simp]:
  "closedFrameCount (noFaceBranch clk stg s) = closedFrameCount s + 1"
  by (simp add: noFaceBranch_def Let_def split_def split: option.splits)

lemma noFaceBranch_start:
  "eyesClosedStartTime (noFaceBranch clk stg s) =
     (if MIN_CLOSED_FRAMES \<le> closedFrameCount s + 1 then
        (case eyesClosedStartTime s of None \<Rightarrow> Some (clk (ticks s)) | Some t \<Rightarrow> Some t)
      else eyesClosedStartTime s)"
  by (simp add: noFaceBranch_def Let_def split_def split: option.splits)

lemma noFaceBranch_state:
  "currentAttentionState (noFaceBranch clk stg s) =
     (if MIN_CLOSED_FRAMES \<le> closedFrameCount s + 1 then
        (if num_ge (noFaceDuration clk s) (microsleepSeconds (thresholds stg)) then Microsleep
         else if num_ge (noFaceDuration clk s) (drowsySeconds (thresholds stg)) then Drowsy
         else currentAttentionState s)
      else currentAttentionState s)"
  by (simp add: noFaceBranch_def noFaceDuration_def Let_def split_def split: option.splits)

lemma noFaceBranch_sent:
  "sent (noFaceBranch clk stg s) = sent s @
     (if MIN_CLOSED_FRAMES \<le> closedFrameCount s + 1 then
        (if num_ge (noFaceDuration clk s) (microsleepSeconds (thresholds stg)) then
           (if currentAttentionState s \<noteq> Microsleep
            then [DROWSINESS_DETECTED Microsleep (Fin (99 / 100)) (noFaceDuration clk s)] else [])
         else if num_ge (noFaceDuration clk s) (drowsySeconds (thresholds stg)) then
           (if currentAttentionState s \<noteq> Drowsy
            then [DROWSINESS_DETECTED Drowsy (Fin (94 / 100)) (noFaceDuration clk s)] else [])
         else [])
      else [])"
  by (simp add: noFaceBranch_def noFaceDuration_def Let_def split_def split: option.splits)

lemma faceBranch_fields:
  "currentAttentionState (faceBranch clk ear stg s) = fst (determineAttentionState clk ear stg s)"
  "closedFrameCount (faceBranch clk ear stg s) = closedFrameCount (snd (determineAttentionState clk ear stg s))"
  "eyesClosedStartTime (faceBranch clk ear stg s) = eyesClosedStartTime (snd (determineAttentionState clk ear stg s))"
  by (simp_all add: faceBranch_def Let_def split_def del: dAS_snd)


lemma sendAttentionUpdate_sent2:
  "sent (sendAttentionUpdate clk st ear s) =
     sent s @ [ATTENTION_UPDATE st (Fin (85 / 100)) ear
                 (reportedDuration clk (sendAttentionUpdate clk st ear s))
                 (clk (ticks (sendAttentionUpdate clk st ear s) - 1))]"
  by (simp add: sendAttentionUpdate_sent sendAttentionUpdate_ticks reportedDuration_def
        eCDOZ_fst eCDOZ_ticks split: option.splits)

lemma faceBranch_sent:
  "sent (faceBranch clk ear stg s) =
     sent s @ faceAlerts clk ear stg s @
     [ATTENTION_UPDATE (currentAttentionState (faceBranch clk ear stg s)) (Fin (85 / 100)) ear
        (reportedDuration clk (faceBranch clk ear stg s))
        (clk (ticks (faceBranch clk ear stg s) - 1))]"
proof -
  obtain ns s1 where d: "determineAttentionState clk ear stg s = (ns, s1)"
    by (cases "determineAttentionState clk ear stg s")
  have s1: "sent s1 = sent s" "currentAttentionState s1 = currentAttentionState s"
    using dAS_snd(1,2) [of clk ear stg s] by (simp_all add: d)
  define s2 where "s2 =
     (if ns \<noteq> currentAttentionState s1 \<and> (ns = Drowsy \<or> ns = Microsleep)
      then triggerDrowsinessAlert ns
             (num_sub (Fin 1) (num_div ear (earThreshold (thresholds stg))))
             (fst (eyesClosedDurationOrZero clk s1)) (snd (eyesClosedDurationOrZero clk s1))
      else s1)"
  have fb: "faceBranch clk ear stg s =
      sendAttentionUpdate clk ns ear (s2\<lparr>currentAttentionState := ns\<rparr>)"
    by (simp add: faceBranch_def d s2_def Let_def split_def)
  have s2: "sent s2 = sent s @ faceAlerts clk ear stg s"
    by (simp add: s2_def faceAlerts_def d s1 Let_def)
  have "sent (s2\<lparr>currentAttentionState := ns\<rparr>) = sent s @ faceAlerts clk ear stg s"
    using s2 by simp
  then show ?thesis
    unfolding fb by (subst sendAttentionUpdate_sent2) simp
qed

lemma handle_disabled:
  "\<not> enabled stg \<Longrightarrow> handleLandmarks clk cae lmo stg s = logFrame clk s"
  by (simp add: handleLandmarks_def Let_def)

lemma handle_noface:
  "enabled stg \<Longrightarrow> handleLandmarks clk cae None stg s = noFaceBranch clk stg (logFrame clk s)"
  by (simp add: handleLandmarks_def Let_def)

lemma handle_face:
  "enabled stg \<Longrightarrow> handleLandmarks clk cae (Some lm) stg s =
     faceBranch clk (cae (leftEyeEAR lm) (rightEyeEAR lm)) stg (logFrame clk s)"
  by (simp add: handleLandmarks_def Let_def)

lemma emitted_disabled:
  "\<not> enabled stg \<Longrightarrow> emitted s (handleLandmarks clk cae lmo stg s) = []"
  by (simp add: handle_disabled emitted_def)

lemma emitted_noface:
  "enabled stg \<Longrightarrow> emitted s (handleLandmarks clk cae None stg s) =
     (if MIN_CLOSED_FRAMES \<le> closedFrameCount s + 1 then
        (if num_ge (noFaceDuration clk (logFrame clk s)) (microsleepSeconds (thresholds stg)) then
           (if currentAttentionState s \<noteq> Microsleep
            then [DROWSINESS_DETECTED Microsleep (Fin (99 / 100)) (noFaceDuration clk (logFrame clk s))] else [])
         else if num_ge (noFaceDuration clk (logFrame clk s)) (drowsySeconds (thresholds stg)) then
           (if currentAttentionState s \<noteq> Drowsy
            then [DROWSINESS_DETECTED Drowsy (Fin (94 / 100)) (noFaceDuration clk (logFrame clk s))] else [])
         else [])
      else [])"
  by (simp add: handle_noface emitted_def noFaceBranch_sent)

lemma emitted_face:
  "enabled stg \<Longrightarrow> s' = handleLandmarks clk cae (Some lm) stg s \<Longrightarrow>
   emitted s s' =
     faceAlerts clk (cae (leftEyeEAR lm) (rightEyeEAR lm)) stg (logFrame clk s) @
     [ATTENTION_UPDATE (currentAttentionState s') (Fin (85 / 100)) (cae (leftEyeEAR lm) (rightEyeEAR lm))
        (reportedDuration clk s') (clk (ticks s' - 1))]"
  by (simp add: handle_face emitted_def faceBranch_sent)

lemma sent_handle:
  "sent (handleLandmarks clk cae lmo stg s) = sent s @ emitted s (handleLandmarks clk cae lmo stg s)"
proof (cases "enabled stg")
  case False
  then show ?thesis by (simp add: handle_disabled emitted_def)
next
  case True
  show ?thesis
  proof (cases lmo)
    case None
    then show ?thesis using True by (simp add: handle_noface emitted_def noFaceBranch_sent)
  next
    case (Some lm)
    then show ?thesis using True by (simp add: handle_face emitted_def faceBranch_sent)
  qed
qed

lemma alert_not_update: "filter is_update (faceAlerts clk ear stg s) = []"
  by (simp add: faceAlerts_def Let_def)

lemma faceAlerts_alert: "filter is_alert (faceAlerts clk ear stg s) = faceAlerts clk ear stg s"
  by (simp add: faceAlerts_def Let_def)

lemma emitted_update_confidence:
  assumes "m \<in> set (emitted s (handleLandmarks clk cae lmo stg s))"
    and "is_update m"
  shows "confidenceOf m = Fin (85 / 100)"
proof (cases "enabled stg")
  case False
  then show ?thesis using assms by (simp add: emitted_disabled)
next
  case en: True
  show ?thesis
  proof (cases lmo)
    case None
    then show ?thesis using assms en by (auto simp add: emitted_noface split: if_splits)
  next
    case (Some lm)
    have "m \<notin> set (faceAlerts clk (cae (leftEyeEAR lm) (rightEyeEAR lm)) stg (logFrame clk s))"
      using assms(2) by (auto simp add: faceAlerts_def Let_def)
    then show ?thesis using assms en Some
      by (auto simp add: emitted_face [OF en refl])
  qed
qed

lemma run_sent_invariant:
  assumes step: "\<And>s lmo stg m. m \<in> set (emitted s (handleLandmarks clk cae lmo stg s)) \<Longrightarrow> P m"
  shows "(\<forall>m \<in> set (sent s). P m) \<Longrightarrow> (\<forall>m \<in> set (sent (run clk cae frs s)). P m)"
proof (induction frs arbitrary: s)
  case Nil
  then show ?case by simp
next
  case (Cons f frs)
  have "\<forall>m \<in> set (sent (handleLandmarks clk cae (fst f) (snd f) s)). P m"
  proof
    fix m assume "m \<in> set (sent (handleLandmarks clk cae (fst f) (snd f) s))"
    then have "m \<in> set (sent s) \<or> m \<in> set (emitted s (handleLandmarks clk cae (fst f) (snd f) s))"
      by (subst (asm) sent_handle) simp
    then show "P m" using Cons.prems step by blast
  qed
  then show ?case using Cons.IH by simp
qed

section \<open>Frames, streaks and runs\<close>

lemma num_ge_not_lt: "num_ge a b \<Longrightarrow> \<not> num_lt a b"
  by (simp add: num_ge_def)

lemma reportedDuration_None: "eyesClosedStartTime s = None \<Longrightarrow> reportedDuration clk s = Fin 0"
  by (simp add: reportedDuration_def)

lemma determineAttentionState_respects_flags:
  "\<not> microsleep (detectors stg) \<Longrightarrow> fst (determineAttentionState clk ear stg s) \<noteq> Microsleep"
  "\<not> drowsiness (detectors stg) \<Longrightarrow> fst (determineAttentionState clk ear stg s) \<noteq> Drowsy"
  by (simp_all add: dAS_fst Let_def)

lemma run_snoc:
  "run clk cae (frs @ [f]) s = handleLandmarks clk cae (fst f) (snd f) (run clk cae frs s)"
  by (induction frs arbitrary: s) simp_all

lemma frame_classes:
  "countsOpen cae f \<or> countsClosed cae f \<or> \<not> enabled (snd f)"
  "\<not> (countsOpen cae f \<and> countsClosed cae f)"
  by (auto simp add: countsOpen_def countsClosed_def split: option.splits)

lemma open_step:
  assumes "countsOpen cae f" and "s' = handleLandmarks clk cae (fst f) (snd f) s"
  shows "closedFrameCount s' = 0" "eyesClosedStartTime s' = None" "currentAttentionState s' = Awake"
  using assms
  by (auto simp add: countsOpen_def handle_face faceBranch_fields dAS_fst split: option.splits)

lemma closed_step:
  assumes "countsClosed cae f" and "s' = handleLandmarks clk cae (fst f) (snd f) s"
  shows "closedFrameCount s' = closedFrameCount s + 1"
    and "eyesClosedStartTime s' =
           (if MIN_CLOSED_FRAMES \<le> closedFrameCount s + 1 then
              (case eyesClosedStartTime s of
                 None \<Rightarrow> Some (clk (ticks (logFrame clk s)))
               | Some t \<Rightarrow> Some t)
            else eyesClosedStartTime s)"
    and "currentAttentionState s' \<noteq> Awake \<Longrightarrow> MIN_CLOSED_FRAMES \<le> closedFrameCount s + 1
          \<or> currentAttentionState s \<noteq> Awake"
proof -
  show "closedFrameCount s' = closedFrameCount s + 1"
    using assms
    by (cases "fst f") (simp_all add: countsClosed_def handle_face handle_noface faceBranch_fields)
  show "eyesClosedStartTime s' =
           (if MIN_CLOSED_FRAMES \<le> closedFrameCount s + 1 then
              (case eyesClosedStartTime s of
                 None \<Rightarrow> Some (clk (ticks (logFrame clk s)))
               | Some t \<Rightarrow> Some t)
            else eyesClosedStartTime s)"
    using assms
    by (cases "fst f")
       (simp_all add: countsClosed_def handle_face handle_noface faceBranch_fields noFaceBranch_start)
  show "currentAttentionState s' \<noteq> Awake \<Longrightarrow> MIN_CLOSED_FRAMES \<le> closedFrameCount s + 1
          \<or> currentAttentionState s \<noteq> Awake"
    using assms
    by (cases "fst f")
       (auto simp add: countsClosed_def handle_face handle_noface faceBranch_fields
          noFaceBranch_state dAS_fst Let_def split: if_splits)
qed

lemma disabled_step:
  assumes "\<not> enabled (snd f)" and "s' = handleLandmarks clk cae (fst f) (snd f) s"
  shows "closedFrameCount s' = closedFrameCount s" "eyesClosedStartTime s' = eyesClosedStartTime s"
    "currentAttentionState s' = currentAttentionState s"
  using assms by (simp_all add: handle_disabled)

lemma tracking_inv_init: "tracking_inv (initialState clk)"
  by (simp add: tracking_inv_def initialState_def MIN_CLOSED_FRAMES_def)

lemma tracking_inv_step:
  assumes "tracking_inv s"
  shows "tracking_inv (handleLandmarks clk cae (fst f) (snd f) s)"
proof -
  define s' where "s' = handleLandmarks clk cae (fst f) (snd f) s"
  consider (op) "countsOpen cae f" | (cl) "countsClosed cae f" | (dis) "\<not> enabled (snd f)"
    using frame_classes(1) by blast
  then have "tracking_inv s'"
  proof cases
    case op
    then show ?thesis using open_step [OF op s'_def]
      by (simp add: tracking_inv_def MIN_CLOSED_FRAMES_def)
  next
    case cl
    show ?thesis using closed_step [OF cl s'_def] assms
      by (auto simp add: tracking_inv_def split: option.splits if_splits)
  next
    case dis
    then show ?thesis using disabled_step [OF dis s'_def] assms
      by (simp add: tracking_inv_def)
  qed
  then show ?thesis by (simp add: s'_def)
qed

lemma tracking_inv_run: "tracking_inv s \<Longrightarrow> tracking_inv (run clk cae frs s)"
  by (induction frs arbitrary: s) (simp_all add: tracking_inv_step)

lemma count_step:
  "closedFrameCount (handleLandmarks clk cae (fst f) (snd f) s) =
     (if countsOpen cae f then 0
      else if countsClosed cae f then closedFrameCount s + 1 else closedFrameCount s)"
  using frame_classes [of cae f] open_step(1) [OF _ refl, of cae f clk s]
    closed_step(1) [OF _ refl, of cae f clk s] disabled_step(1) [OF _ refl, of f clk cae s]
  by auto

lemma streak_snoc:
  "streak cae (frs @ [f]) =
     (if countsOpen cae f then 0
      else if countsClosed cae f then streak cae frs + 1 else streak cae frs)"
  by (simp add: streak_def)

lemma count_is_streak:
  "closedFrameCount (run clk cae frs (initialState clk)) = streak cae frs"
proof (induction frs rule: rev_induct)
  case Nil
  then show ?case by (simp add: streak_def initialState_def)
next
  case (snoc f frs)
  then show ?case by (simp add: run_snoc count_step streak_snoc)
qed

lemma sent_run: "sent (run clk cae frs s) = sent s @ emitted s (run clk cae frs s)"
proof (induction frs arbitrary: s)
  case Nil
  then show ?case by (simp add: emitted_def)
next
  case (Cons f frs)
  let ?h = "handleLandmarks clk cae (fst f) (snd f) s"
  have "sent (run clk cae frs ?h) = sent ?h @ emitted ?h (run clk cae frs ?h)"
    by (rule Cons.IH)
  also have "sent ?h = sent s @ emitted s ?h" by (rule sent_handle)
  finally have e: "sent (run clk cae frs ?h) = sent s @ (emitted s ?h @ emitted ?h (run clk cae frs ?h))"
    by simp
  have "emitted s (run clk cae frs ?h) = emitted s ?h @ emitted ?h (run clk cae frs ?h)"
    unfolding emitted_def [of s "run clk cae frs ?h"] e by simp
  then show ?case using e by simp
qed

lemma emitted_run_snoc:
  "emitted s (run clk cae (frs @ [f]) s) =
     emitted s (run clk cae frs s) @ emitted (run clk cae frs s) (run clk cae (frs @ [f]) s)"
proof -
  let ?r = "run clk cae frs s"
  let ?h = "handleLandmarks clk cae (fst f) (snd f) ?r"
  have "sent ?h = sent ?r @ emitted ?r ?h" by (rule sent_handle)
  also have "sent ?r = sent s @ emitted s ?r" by (rule sent_run)
  finally have e: "sent ?h = sent s @ (emitted s ?r @ emitted ?r ?h)" by simp
  have "emitted s ?h = emitted s ?r @ emitted ?r ?h"
    unfolding emitted_def [of s ?h] e by simp
  then show ?thesis by (simp add: run_snoc)
qed

lemma quiet_frame:
  assumes "currentAttentionState s = Awake"
    and "s' = handleLandmarks clk cae lmo stg s"
    and "currentAttentionState s' = Awake"
    and "eyesClosedStartTime s' = None"
  shows "\<forall>m \<in> set (emitted s s'). \<not> is_alert m \<and> durationOf m = Fin 0"
proof (cases "enabled stg")
  case False
  then show ?thesis using assms(2) by (simp add: emitted_disabled)
next
  case en: True
  show ?thesis
  proof (cases lmo)
    case None
    have e: "emitted s s' = emitted s (handleLandmarks clk cae None stg s)"
      using assms None by simp
    have c: "currentAttentionState (noFaceBranch clk stg (logFrame clk s)) = Awake"
      using assms None en by (simp add: handle_noface)
    show ?thesis
      using c unfolding e emitted_noface [OF en] noFaceBranch_state
      by (auto split: if_splits)
  next
    case (Some lm)
    let ?ear = "cae (leftEyeEAR lm) (rightEyeEAR lm)"
    have a: "emitted s s' = faceAlerts clk ?ear stg (logFrame clk s) @
     [ATTENTION_UPDATE (currentAttentionState s') (Fin (85 / 100)) ?ear
        (reportedDuration clk s') (clk (ticks s' - 1))]"
      using emitted_face [OF en] assms Some by simp
    have b: "fst (determineAttentionState clk ?ear stg (logFrame clk s)) = Awake"
      using assms Some en by (simp add: handle_face faceBranch_fields)
    have "faceAlerts clk ?ear stg (logFrame clk s) = []"
      by (simp add: faceAlerts_def b Let_def)
    then show ?thesis
      unfolding a using assms(4) by (simp add: reportedDuration_None)
  qed
qed

lemma quiet_run:
  assumes "\<forall>k \<le> length frs. currentAttentionState (run clk cae (take k frs) s) = Awake
                \<and> eyesClosedStartTime (run clk cae (take k frs) s) = None"
  shows "\<forall>m \<in> set (emitted s (run clk cae frs s)). \<not> is_alert m \<and> durationOf m = Fin 0"
  using assms
proof (induction frs rule: rev_induct)
  case Nil
  then show ?case by (simp add: emitted_def)
next
  case (snoc f frs)
  have pre: "\<forall>k \<le> length frs. currentAttentionState (run clk cae (take k frs) s) = Awake
                \<and> eyesClosedStartTime (run clk cae (take k frs) s) = None"
  proof (intro allI impI)
    fix k assume k: "k \<le> length frs"
    then have "take k (frs @ [f]) = take k frs" by simp
    moreover have "k \<le> length (frs @ [f])" using k by simp
    ultimately show "currentAttentionState (run clk cae (take k frs) s) = Awake
                \<and> eyesClosedStartTime (run clk cae (take k frs) s) = None"
      using snoc.prems by metis
  qed
  then have ih: "\<forall>m \<in> set (emitted s (run clk cae frs s)). \<not> is_alert m \<and> durationOf m = Fin 0"
    by (rule snoc.IH)
  have s0: "currentAttentionState (run clk cae frs s) = Awake"
    using pre by (metis order_refl take_all)
  have s1: "currentAttentionState (run clk cae (frs @ [f]) s) = Awake
      \<and> eyesClosedStartTime (run clk cae (frs @ [f]) s) = None"
    using snoc.prems by (metis order_refl take_all)
  have "\<forall>m \<in> set (emitted (run clk cae frs s) (run clk cae (frs @ [f]) s)).
          \<not> is_alert m \<and> durationOf m = Fin 0"
    using quiet_frame [OF s0 run_snoc] s1 by blast
  then show ?case using ih by (simp add: emitted_run_snoc) blast
qed

lemma count_run_not_open:
  assumes "\<forall>f \<in> set frs. \<not> countsOpen cae f"
  shows "closedFrameCount (run clk cae frs s)
           = closedFrameCount s + length (filter (countsClosed cae) frs)"
  using assms by (induction frs arbitrary: s) (simp_all add: count_step)

lemma num_lt_trans: "num_lt a b \<Longrightarrow> num_lt b c \<Longrightarrow> num_lt a c"
  by (cases a; cases b; cases c) simp_all

lemma run_append: "run clk cae (xs @ ys) s = run clk cae ys (run clk cae xs s)"
  by (induction xs arbitrary: s) simp_all

lemma countsOpen_showsOpenEyes: "countsOpen cae f = (enabled (snd f) \<and> showsOpenEyes cae f)"
  by (simp add: countsOpen_def showsOpenEyes_def)

lemma keep_latched:
  assumes "eyesClosedStartTime s = Some t" and "\<not> countsOpen cae f"
  shows "eyesClosedStartTime (handleLandmarks clk cae (fst f) (snd f) s) = Some t"
proof (cases "countsClosed cae f")
  case True
  show ?thesis using closed_step(2) [OF True refl, of clk s] assms(1) by simp
next
  case False
  then have "\<not> enabled (snd f)" using assms(2) frame_classes(1) by blast
  then show ?thesis using disabled_step(2) [OF _ refl, of f clk cae s] assms(1) by simp
qed

lemma keep_latched_run:
  assumes "eyesClosedStartTime s = Some t" and "\<forall>h \<in> set post. \<not> countsOpen cae h"
  shows "eyesClosedStartTime (run clk cae post s) = Some t"
  using assms by (induction post arbitrary: s) (simp_all add: keep_latched)

lemma streak_decomp:
  assumes "MIN_CLOSED_FRAMES \<le> streak cae frs"
  shows "\<exists>pre g post. frs = pre @ g # post \<and> countsClosed cae g
           \<and> streak cae (pre @ [g]) = MIN_CLOSED_FRAMES
           \<and> (\<forall>h \<in> set post. \<not> countsOpen cae h)"
  using assms
proof (induction frs rule: rev_induct)
  case Nil
  then show ?case by (simp add: streak_def MIN_CLOSED_FRAMES_def)
next
  case (snoc f frs)
  have nopen: "\<not> countsOpen cae f"
    using snoc.prems by (auto simp add: streak_snoc MIN_CLOSED_FRAMES_def)
  show ?case
  proof (cases "MIN_CLOSED_FRAMES \<le> streak cae frs")
    case True
    then obtain pre g post where d: "frs = pre @ g # post" "countsClosed cae g"
        "streak cae (pre @ [g]) = MIN_CLOSED_FRAMES" "\<forall>h \<in> set post. \<not> countsOpen cae h"
      using snoc.IH by blast
    have "frs @ [f] = pre @ g # (post @ [f])" using d(1) by simp
    moreover have "\<forall>h \<in> set (post @ [f]). \<not> countsOpen cae h" using d(4) nopen by simp
    ultimately show ?thesis using d(2,3) by blast
  next
    case False
    then have cl: "countsClosed cae f" and eq: "streak cae (frs @ [f]) = MIN_CLOSED_FRAMES"
      using snoc.prems nopen by (auto simp add: streak_snoc split: if_splits)
    have "frs @ [f] = frs @ f # []" by simp
    then show ?thesis using cl eq by (metis empty_iff list.set(1))
  qed
qed

lemma latch_value:
  assumes "countsClosed cae g" and "streak cae (pre @ [g]) = MIN_CLOSED_FRAMES"
  shows "eyesClosedStartTime (run clk cae (pre @ [g]) (initialState clk))
           = Some (clk (ticks (logFrame clk (run clk cae pre (initialState clk)))))"
proof -
  let ?p = "run clk cae pre (initialState clk)"
  have nopen: "\<not> countsOpen cae g" using assms(1) frame_classes(2) by blast
  have "streak cae pre + 1 = MIN_CLOSED_FRAMES"
    using assms nopen by (simp add: streak_snoc)
  then have c: "closedFrameCount ?p + 1 = MIN_CLOSED_FRAMES"
    by (simp add: count_is_streak)
  have "tracking_inv ?p" using tracking_inv_run [OF tracking_inv_init] by simp
  then have n: "eyesClosedStartTime ?p = None"
    using c by (auto simp add: tracking_inv_def)
  show ?thesis
    using closed_step(2) [OF assms(1) run_snoc [of clk cae pre g "initialState clk"]] c n
    by simp
qed

section \<open>Detector flags and the no-face branch\<close>

text \<open>
  Claim C1. With the microsleep detector flag false the computed attention state is never
  Microsleep, and with the drowsiness flag false it is never Drowsy, also on frames where
  no face is detected. \<open>determineAttentionState\<close> tests each flag before its threshold
  (lemma \<open>determineAttentionState_respects_flags\<close>); the no-face branch of
  \<open>handleLandmarks\<close> compares the same thresholds without reading the flags. On the
  one-second clock, nineteen frames without a face under settings whose microsleep flag is
  false end in Microsleep, and sixteen under settings whose drowsiness flag is false end
  in Drowsy.
\<close>

theorem no_face_branch_ignores_detector_flags:
  "enabled microsleepOff \<and> \<not> microsleep (detectors microsleepOff)
   \<and> currentAttentionState (exampleRun (replicate 19 (None, microsleepOff))) = Microsleep
   \<and> enabled drowsinessOff \<and> \<not> drowsiness (detectors drowsinessOff)
   \<and> currentAttentionState (exampleRun (replicate 16 (None, drowsinessOff))) = Drowsy"
  by code_simp

section \<open>The periodic update\<close>

text \<open>
  Claim C2, as the code has it. On a frame processed with the master flag set, a frame
  with a face sends exactly one \<open>ATTENTION_UPDATE\<close>, carrying the state after the frame, the
  constant 0.85, the averaged EAR, the closed duration (0 when nothing is latched or the
  latched timestamp is 0) and the time of sending; a frame without a face sends none (the
  no-face branch returns before \<open>sendAttentionUpdate\<close>).
\<close>

theorem periodic_update_per_frame:
  assumes "enabled stg" and "s' = handleLandmarks clk cae lmo stg s"
  shows "filter is_update (emitted s s') =
           (case lmo of
              None \<Rightarrow> []
            | Some lm \<Rightarrow>
                [ATTENTION_UPDATE (currentAttentionState s') (Fin (85 / 100))
                   (cae (leftEyeEAR lm) (rightEyeEAR lm))
                   (reportedDuration clk s') (clk (ticks s' - 1))])"
proof (cases lmo)
  case None
  then show ?thesis using assms by (simp add: emitted_noface)
next
  case (Some lm)
  then show ?thesis using assms
    by (simp add: emitted_face [OF assms(1) refl] alert_not_update)
qed

theorem periodic_update_per_frame_witness:
  "enabled scenarioSettings
   \<and> filter is_update
        (emitted (exampleRun (replicate 15 (Some closedEyes, scenarioSettings)))
           (handleLandmarks secondClock computeAverageEAR (Some closedEyes) scenarioSettings
              (exampleRun (replicate 15 (Some closedEyes, scenarioSettings)))))
       = [ATTENTION_UPDATE Drowsy (Fin (85 / 100)) (Fin (1 / 10)) (Fin 5) 35000]
   \<and> filter is_update
        (emitted (exampleRun (replicate 15 (Some closedEyes, scenarioSettings)))
           (handleLandmarks secondClock computeAverageEAR None scenarioSettings
              (exampleRun (replicate 15 (Some closedEyes, scenarioSettings)))))
       = []"
proof -
  let ?s = "exampleRun (replicate 15 (Some closedEyes, scenarioSettings))"
  let ?s' = "handleLandmarks secondClock computeAverageEAR (Some closedEyes) scenarioSettings ?s"
  have en: "enabled scenarioSettings" by (simp add: scenarioSettings_def)
  have r: "[ATTENTION_UPDATE (currentAttentionState ?s') (Fin (85 / 100))
              (computeAverageEAR (leftEyeEAR closedEyes) (rightEyeEAR closedEyes))
              (reportedDuration secondClock ?s') (secondClock (ticks ?s' - 1))]
           = [ATTENTION_UPDATE Drowsy (Fin (85 / 100)) (Fin (1 / 10)) (Fin 5) 35000]"
    by code_simp
  show ?thesis
    using en r periodic_update_per_frame [where clk = secondClock and cae = computeAverageEAR
        and lmo = "Some closedEyes" and s = ?s, OF en refl]
      periodic_update_per_frame [where clk = secondClock and cae = computeAverageEAR
        and lmo = None and s = ?s, OF en refl]
    by simp
qed

text \<open>
  Claim C2 as stated (one update on every enabled frame, with or without a face) fails on
  the first frame without a face: no update is sent.
\<close>

theorem periodic_update_missing_without_face:
  "enabled scenarioSettings
   \<and> length (filter is_update
        (emitted (initialState secondClock)
           (handleLandmarks secondClock computeAverageEAR None scenarioSettings
              (initialState secondClock)))) = 0"
  by code_simp

section \<open>Invalid EAR values\<close>

text \<open>
  Claim C3, as the code has it. The detector does not validate the averaged EAR. On a
  frame with a face that is processed with the master flag set: a NaN fails the comparison
  with \<open>earThreshold\<close>, so the frame is handled as an open frame (the counters are reset,
  the state is Awake, and the one message sent is an update carrying \<open>earValue = NaN\<close> and
  duration 0); a negative EAR is compared with \<open>earThreshold\<close> like any other value, so the
  frame counts as closed exactly when \<open>ear < earThreshold\<close> holds (for every positive
  threshold) and as open otherwise, the state is the one \<open>determineAttentionState\<close> returns
  for that value, the update carries the negative value, and an alert raised on that
  frame carries \<open>1 - ear / earThreshold\<close> computed from it.
\<close>

theorem invalid_ear_not_rejected:
  assumes "enabled stg"
    and "ear = cae (leftEyeEAR lm) (rightEyeEAR lm)"
    and "s' = handleLandmarks clk cae (Some lm) stg s"
  shows "(ear = NaN \<longrightarrow>
            closedFrameCount s' = 0 \<and> eyesClosedStartTime s' = None
            \<and> currentAttentionState s' = Awake
            \<and> emitted s s'
                = [ATTENTION_UPDATE Awake (Fin (85 / 100)) NaN (Fin 0) (clk (ticks s' - 1))])
       \<and> (num_lt ear (Fin 0) \<longrightarrow>
            closedFrameCount s'
              = (if num_lt ear (earThreshold (thresholds stg)) then closedFrameCount s + 1 else 0)
            \<and> (num_lt (Fin 0) (earThreshold (thresholds stg))
                 \<longrightarrow> closedFrameCount s' = closedFrameCount s + 1)
            \<and> currentAttentionState s'
                = fst (determineAttentionState clk ear stg (logFrame clk s))
            \<and> filter is_update (emitted s s')
                = [ATTENTION_UPDATE (currentAttentionState s') (Fin (85 / 100)) ear
                     (reportedDuration clk s') (clk (ticks s' - 1))]
            \<and> (\<forall>m \<in> set (emitted s s'). is_alert m \<longrightarrow>
                  confidenceOf m
                    = num_sub (Fin 1) (num_div ear (earThreshold (thresholds stg)))))"
proof (intro conjI impI)
  assume nan: "ear = NaN"
  have f: "closedFrameCount s' = 0" "eyesClosedStartTime s' = None"
      "currentAttentionState s' = Awake"
    using assms nan by (simp_all add: handle_face faceBranch_fields dAS_fst)
  then show "closedFrameCount s' = 0" "eyesClosedStartTime s' = None"
      "currentAttentionState s' = Awake"
    by simp_all
  have "faceAlerts clk NaN stg (logFrame clk s) = []"
    by (simp add: faceAlerts_def dAS_fst Let_def)
  then show "emitted s s'
      = [ATTENTION_UPDATE Awake (Fin (85 / 100)) NaN (Fin 0) (clk (ticks s' - 1))]"
    using emitted_face [OF assms(1,3)] assms(2) nan f by (simp add: reportedDuration_None)
next
  assume neg: "num_lt ear (Fin 0)"
  show cnt: "closedFrameCount s'
      = (if num_lt ear (earThreshold (thresholds stg)) then closedFrameCount s + 1 else 0)"
    using assms by (simp add: handle_face faceBranch_fields)
  show "closedFrameCount s' = closedFrameCount s + 1"
    if "num_lt (Fin 0) (earThreshold (thresholds stg))"
    using cnt num_lt_trans [OF neg that] by simp
  show "currentAttentionState s' = fst (determineAttentionState clk ear stg (logFrame clk s))"
    using assms by (simp add: handle_face faceBranch_fields)
  show "filter is_update (emitted s s')
      = [ATTENTION_UPDATE (currentAttentionState s') (Fin (85 / 100)) ear
           (reportedDuration clk s') (clk (ticks s' - 1))]"
    using emitted_face [OF assms(1,3)] assms(2) by (simp add: alert_not_update)
  show "\<forall>m \<in> set (emitted s s'). is_alert m \<longrightarrow>
          confidenceOf m = num_sub (Fin 1) (num_div ear (earThreshold (thresholds stg)))"
  proof (intro ballI impI)
    fix m assume m: "m \<in> set (emitted s s')" "is_alert m"
    then have "m \<in> set (faceAlerts clk ear stg (logFrame clk s))"
      using emitted_face [OF assms(1,3)] assms(2) by auto
    then show "confidenceOf m = num_sub (Fin 1) (num_div ear (earThreshold (thresholds stg)))"
      by (auto simp add: faceAlerts_def Let_def split: if_splits)
  qed
qed

theorem invalid_ear_not_rejected_witness:
  "enabled scenarioSettings
   \<and> computeAverageEAR (leftEyeEAR nanEyes) (rightEyeEAR nanEyes) = NaN
   \<and> closedFrameCount (exampleRun (replicate 16 (Some closedEyes, scenarioSettings))) = 16
   \<and> closedFrameCount
        (handleLandmarks secondClock computeAverageEAR (Some nanEyes) scenarioSettings
           (exampleRun (replicate 16 (Some closedEyes, scenarioSettings)))) = 0
   \<and> currentAttentionState
        (handleLandmarks secondClock computeAverageEAR (Some nanEyes) scenarioSettings
           (exampleRun (replicate 16 (Some closedEyes, scenarioSettings)))) = Awake
   \<and> computeAverageEAR (leftEyeEAR negativeEyes) (rightEyeEAR negativeEyes) = Fin (- 1 / 10)
   \<and> num_lt (Fin (- 1 / 10)) (Fin 0)
   \<and> num_lt (Fin 0) (earThreshold (thresholds scenarioSettings))
   \<and> closedFrameCount
        (handleLandmarks secondClock computeAverageEAR (Some negativeEyes) scenarioSettings
           (exampleRun (replicate 15 (Some negativeEyes, scenarioSettings)))) = 16
   \<and> DROWSINESS_DETECTED Drowsy (Fin (3 / 2)) (Fin 4)
        \<in> set (emitted (exampleRun (replicate 15 (Some negativeEyes, scenarioSettings)))
             (handleLandmarks secondClock computeAverageEAR (Some negativeEyes) scenarioSettings
                (exampleRun (replicate 15 (Some negativeEyes, scenarioSettings)))))
   \<and> confidenceOf (DROWSINESS_DETECTED Drowsy (Fin (3 / 2)) (Fin 4))
        = num_sub (Fin 1) (num_div (Fin (- 1 / 10)) (earThreshold (thresholds scenarioSettings)))"
proof -
  let ?s = "exampleRun (replicate 16 (Some closedEyes, scenarioSettings))"
  let ?t = "exampleRun (replicate 15 (Some negativeEyes, scenarioSettings))"
  let ?t' = "handleLandmarks secondClock computeAverageEAR (Some negativeEyes) scenarioSettings ?t"
  have en: "enabled scenarioSettings" by (simp add: scenarioSettings_def)
  have nan: "NaN = computeAverageEAR (leftEyeEAR nanEyes) (rightEyeEAR nanEyes)"
    by (simp add: computeAverageEAR_def nanEyes_def)
  have neg: "Fin (- 1 / 10) = computeAverageEAR (leftEyeEAR negativeEyes) (rightEyeEAR negativeEyes)"
    by (simp add: computeAverageEAR_def negativeEyes_def)
  have lt0: "num_lt (Fin (- 1 / 10)) (Fin 0)" by simp
  have thr: "num_lt (Fin 0) (earThreshold (thresholds scenarioSettings))"
    by (simp add: scenarioSettings_def)
  have before: "closedFrameCount ?s = 16" "closedFrameCount ?t = 15"
    by code_simp+
  have m: "DROWSINESS_DETECTED Drowsy (Fin (3 / 2)) (Fin 4) \<in> set (emitted ?t ?t')"
    by code_simp
  note n1 = invalid_ear_not_rejected [where clk = secondClock and cae = computeAverageEAR
      and lm = nanEyes and s = ?s and ear = NaN, OF en nan refl]
  note n2 = invalid_ear_not_rejected [where clk = secondClock and cae = computeAverageEAR
      and lm = negativeEyes and s = ?t and ear = "Fin (- 1 / 10)", OF en neg refl]
  have a: "closedFrameCount
        (handleLandmarks secondClock computeAverageEAR (Some nanEyes) scenarioSettings ?s) = 0
      \<and> currentAttentionState
        (handleLandmarks secondClock computeAverageEAR (Some nanEyes) scenarioSettings ?s) = Awake"
    using n1 by simp
  have b: "closedFrameCount ?t' = closedFrameCount ?t + 1
      \<and> (\<forall>m \<in> set (emitted ?t ?t'). is_alert m \<longrightarrow>
            confidenceOf m
              = num_sub (Fin 1) (num_div (Fin (- 1 / 10)) (earThreshold (thresholds scenarioSettings))))"
    using n2 lt0 thr by blast
  then have c: "confidenceOf (DROWSINESS_DETECTED Drowsy (Fin (3 / 2)) (Fin 4))
        = num_sub (Fin 1) (num_div (Fin (- 1 / 10)) (earThreshold (thresholds scenarioSettings)))"
    using m by (metis is_alert.simps(1))
  show ?thesis using en nan neg lt0 thr before a b c m by simp
qed

text \<open>
  Claim C3 as stated (a negative or NaN EAR is processed exactly like a frame without a
  face and never reaches a comparison or a confidence) fails: from the initial state a NaN
  frame leaves \<open>closedFrameCount\<close> at 0 where a frame without a face makes it 1; a frame
  with EAR -0.1 sends an update where a frame without a face sends nothing; and the alert
  of the sixteenth frame with EAR -0.1 carries confidence 1.5.
\<close>

theorem invalid_ear_differs_from_no_face:
  "computeAverageEAR (leftEyeEAR nanEyes) (rightEyeEAR nanEyes) = NaN
   \<and> closedFrameCount (handleLandmarks secondClock computeAverageEAR (Some nanEyes)
        scenarioSettings (initialState secondClock)) = 0
   \<and> closedFrameCount (handleLandmarks secondClock computeAverageEAR None
        scenarioSettings (initialState secondClock)) = 1
   \<and> computeAverageEAR (leftEyeEAR negativeEyes) (rightEyeEAR negativeEyes) = Fin (- 1 / 10)
   \<and> sent (handleLandmarks secondClock computeAverageEAR (Some negativeEyes)
        scenarioSettings (initialState secondClock))
       = [ATTENTION_UPDATE Awake (Fin (85 / 100)) (Fin (- 1 / 10)) (Fin 0) 2000]
   \<and> sent (handleLandmarks secondClock computeAverageEAR None
        scenarioSettings (initialState secondClock)) = []
   \<and> filter is_alert (sent (exampleRun (replicate 16 (Some negativeEyes, scenarioSettings))))
       = [DROWSINESS_DETECTED Drowsy (Fin (3 / 2)) (Fin 4)]"
  by code_simp

section \<open>Alerts\<close>

text \<open>
  Claim C4, as the code has it. On every processed frame an alert is sent if and only if
  the state after the frame differs from the state before it and is Drowsy or Microsleep;
  it is then the only alert of the frame and names the new state. Hence a frame that
  leaves the state unchanged sends no alert (staying in an elevated state does not fire
  again), and a frame that ends in Awake sends no alert. This holds on all three paths:
  master flag off, no face, face.
\<close>

theorem alert_on_rising_edge:
  assumes "s' = handleLandmarks clk cae lmo stg s"
  shows "(currentAttentionState s' \<noteq> currentAttentionState s
            \<and> (currentAttentionState s' = Drowsy \<or> currentAttentionState s' = Microsleep)
          \<longrightarrow> (\<exists>c d. filter is_alert (emitted s s')
                        = [DROWSINESS_DETECTED (currentAttentionState s') c d]))
       \<and> (\<not> (currentAttentionState s' \<noteq> currentAttentionState s
               \<and> (currentAttentionState s' = Drowsy \<or> currentAttentionState s' = Microsleep))
          \<longrightarrow> filter is_alert (emitted s s') = [])
       \<and> (currentAttentionState s' = currentAttentionState s
          \<longrightarrow> filter is_alert (emitted s s') = [])
       \<and> (currentAttentionState s' = Awake \<longrightarrow> filter is_alert (emitted s s') = [])"
proof -
  have main: "(currentAttentionState s' \<noteq> currentAttentionState s
            \<and> (currentAttentionState s' = Drowsy \<or> currentAttentionState s' = Microsleep)
          \<longrightarrow> (\<exists>c d. filter is_alert (emitted s s')
                        = [DROWSINESS_DETECTED (currentAttentionState s') c d]))
       \<and> (\<not> (currentAttentionState s' \<noteq> currentAttentionState s
               \<and> (currentAttentionState s' = Drowsy \<or> currentAttentionState s' = Microsleep))
          \<longrightarrow> filter is_alert (emitted s s') = [])"
  proof (cases "enabled stg")
    case False
    then show ?thesis using assms by (simp add: emitted_def handle_disabled)
  next
    case en: True
    show ?thesis
    proof (cases lmo)
      case None
      have e: "emitted s s' = emitted s (handleLandmarks clk cae None stg s)"
        using assms None by simp
      have c: "currentAttentionState s'
                 = currentAttentionState (noFaceBranch clk stg (logFrame clk s))"
        using assms None en by (simp add: handle_noface)
      show ?thesis
        unfolding e c emitted_noface [OF en] noFaceBranch_state by auto
    next
      case (Some lm)
      have a: "emitted s s' =
          faceAlerts clk (cae (leftEyeEAR lm) (rightEyeEAR lm)) stg (logFrame clk s) @
          [ATTENTION_UPDATE (currentAttentionState s') (Fin (85 / 100))
             (cae (leftEyeEAR lm) (rightEyeEAR lm))
             (reportedDuration clk s') (clk (ticks s' - 1))]"
        using emitted_face [OF en] assms Some by simp
      have b: "currentAttentionState s' =
          fst (determineAttentionState clk (cae (leftEyeEAR lm) (rightEyeEAR lm)) stg
                 (logFrame clk s))"
        using assms Some en by (simp add: handle_face faceBranch_fields)
      show ?thesis
        unfolding a
        by (simp add: faceAlerts_alert) (simp add: faceAlerts_def b [symmetric] Let_def)
    qed
  qed
  then show ?thesis by auto
qed

theorem alert_on_rising_edge_witness:
  "currentAttentionState (exampleRun (replicate 15 (Some closedEyes, scenarioSettings))) = Awake
   \<and> currentAttentionState
        (handleLandmarks secondClock computeAverageEAR (Some closedEyes) scenarioSettings
           (exampleRun (replicate 15 (Some closedEyes, scenarioSettings)))) = Drowsy
   \<and> length (filter is_alert
        (emitted (exampleRun (replicate 15 (Some closedEyes, scenarioSettings)))
           (handleLandmarks secondClock computeAverageEAR (Some closedEyes) scenarioSettings
              (exampleRun (replicate 15 (Some closedEyes, scenarioSettings)))))) = 1
   \<and> currentAttentionState (exampleRun (replicate 16 (Some closedEyes, scenarioSettings))) = Drowsy
   \<and> currentAttentionState
        (handleLandmarks secondClock computeAverageEAR (Some openEyes) scenarioSettings
           (exampleRun (replicate 16 (Some closedEyes, scenarioSettings)))) = Awake
   \<and> filter is_alert
        (emitted (exampleRun (replicate 16 (Some closedEyes, scenarioSettings)))
           (handleLandmarks secondClock computeAverageEAR (Some openEyes) scenarioSettings
              (exampleRun (replicate 16 (Some closedEyes, scenarioSettings))))) = []"
proof -
  let ?s = "exampleRun (replicate 15 (Some closedEyes, scenarioSettings))"
  let ?s' = "handleLandmarks secondClock computeAverageEAR (Some closedEyes) scenarioSettings ?s"
  let ?t = "exampleRun (replicate 16 (Some closedEyes, scenarioSettings))"
  let ?t' = "handleLandmarks secondClock computeAverageEAR (Some openEyes) scenarioSettings ?t"
  have a: "currentAttentionState ?s = Awake" "currentAttentionState ?s' = Drowsy"
      "currentAttentionState ?t = Drowsy" "currentAttentionState ?t' = Awake"
    by code_simp+
  have "\<exists>c d. filter is_alert (emitted ?s ?s') = [DROWSINESS_DETECTED (currentAttentionState ?s') c d]"
    using alert_on_rising_edge [where clk = secondClock and cae = computeAverageEAR
        and lmo = "Some closedEyes" and stg = scenarioSettings and s = ?s, OF refl] a by simp
  then have one: "length (filter is_alert (emitted ?s ?s')) = 1" by auto
  have none: "filter is_alert (emitted ?t ?t') = []"
    using alert_on_rising_edge [where clk = secondClock and cae = computeAverageEAR
        and lmo = "Some openEyes" and stg = scenarioSettings and s = ?t, OF refl] a by simp
  show ?thesis using a one none by simp
qed

text \<open>
  Claim C4 as stated also says that re-entering the same elevated state on a later frame
  fires no alert as long as no Awake came in between. The edge rule fires on any change,
  so Drowsy, Microsleep, Drowsy fires a second Drowsy alert. Two runs: in the first the
  microsleep detector is switched off between the seventeenth and the eighteenth frame; in
  the second the settings never change (microsleep detector off) and the face is lost for
  one frame while the eyes stay closed.
\<close>

theorem alert_refires_without_awake:
  "currentAttentionState (exampleRun (replicate 16 (Some closedEyes, scenarioSettings))) = Drowsy
   \<and> currentAttentionState (exampleRun (replicate 17 (Some closedEyes, scenarioSettings)))
       = Microsleep
   \<and> currentAttentionState
        (exampleRun (replicate 17 (Some closedEyes, scenarioSettings)
                     @ [(Some closedEyes, microsleepOff)])) = Drowsy
   \<and> filter is_alert
        (sent (exampleRun (replicate 17 (Some closedEyes, scenarioSettings)
                           @ [(Some closedEyes, microsleepOff)])))
       = [DROWSINESS_DETECTED Drowsy (Fin (1 / 2)) (Fin 4),
          DROWSINESS_DETECTED Microsleep (Fin (1 / 2)) (Fin 8),
          DROWSINESS_DETECTED Drowsy (Fin (1 / 2)) (Fin 12)]
   \<and> currentAttentionState (exampleRun (replicate 16 (Some closedEyes, microsleepOff))) = Drowsy
   \<and> currentAttentionState
        (exampleRun (replicate 16 (Some closedEyes, microsleepOff) @ [(None, microsleepOff)]))
       = Microsleep
   \<and> currentAttentionState
        (exampleRun (replicate 16 (Some closedEyes, microsleepOff)
                     @ [(None, microsleepOff), (Some closedEyes, microsleepOff)])) = Drowsy
   \<and> filter is_alert
        (sent (exampleRun (replicate 16 (Some closedEyes, microsleepOff)
                           @ [(None, microsleepOff), (Some closedEyes, microsleepOff)])))
       = [DROWSINESS_DETECTED Drowsy (Fin (1 / 2)) (Fin 4),
          DROWSINESS_DETECTED Microsleep (Fin (99 / 100)) (Fin 7),
          DROWSINESS_DETECTED Drowsy (Fin (1 / 2)) (Fin 9)]"
  by code_simp

section \<open>Blink filtering\<close>

text \<open>
  Claim C5, as the code has it. Take a closure streak that starts in a reachable state
  with \<open>closedFrameCount = 0\<close> (at start-up, or after an open frame that was processed with
  the master flag set), has fewer than \<open>MIN_CLOSED_FRAMES\<close> (15) frames counted closed
  (frames skipped because the master flag is off may lie in between), and is followed by
  a frame that shows open eyes (processed or skipped). Then after every frame of the
  streak, and after the open frame, \<open>eyesClosedStartTime\<close> is unset and the state is
  Awake; no alert is sent, and every message sent reports a closed duration of 0.
\<close>

theorem blink_filtering:
  assumes "s0 = run clk cae pre (initialState clk)"
    and "closedFrameCount s0 = 0"
    and "\<forall>f \<in> set frs. countsClosed cae f \<or> \<not> enabled (snd f)"
    and "length (filter (countsClosed cae) frs) < MIN_CLOSED_FRAMES"
    and "showsOpenEyes cae g"
  shows "(\<forall>k \<le> length (frs @ [g]).
            eyesClosedStartTime (run clk cae (take k (frs @ [g])) s0) = None
            \<and> currentAttentionState (run clk cae (take k (frs @ [g])) s0) = Awake)
       \<and> (\<forall>m \<in> set (emitted s0 (run clk cae (frs @ [g]) s0)).
            \<not> is_alert m \<and> durationOf m = Fin 0)"
proof -
  have inv0: "tracking_inv s0"
    using assms(1) tracking_inv_run [OF tracking_inv_init] by simp
  have nopen: "\<forall>f \<in> set frs. \<not> countsOpen cae f"
    using assms(3) frame_classes(2) by (auto simp add: countsOpen_def)
  have prefix: "eyesClosedStartTime (run clk cae (take k frs) s0) = None
            \<and> currentAttentionState (run clk cae (take k frs) s0) = Awake" for k
  proof -
    have "\<forall>f \<in> set (take k frs). \<not> countsOpen cae f"
      using nopen by (meson in_set_takeD)
    then have "closedFrameCount (run clk cae (take k frs) s0)
                 = length (filter (countsClosed cae) (take k frs))"
      using count_run_not_open [of "take k frs" cae clk s0] assms(2) by simp
    moreover have "length (filter (countsClosed cae) (take k frs))
                     \<le> length (filter (countsClosed cae) frs)"
    proof -
      have "filter (countsClosed cae) frs
              = filter (countsClosed cae) (take k frs) @ filter (countsClosed cae) (drop k frs)"
        by (metis append_take_drop_id filter_append)
      then show ?thesis by simp
    qed
    ultimately have lt: "closedFrameCount (run clk cae (take k frs) s0) < MIN_CLOSED_FRAMES"
      using assms(4) by simp
    have "tracking_inv (run clk cae (take k frs) s0)"
      using inv0 by (rule tracking_inv_run)
    then show ?thesis using lt by (auto simp add: tracking_inv_def)
  qed
  have final: "eyesClosedStartTime (run clk cae (frs @ [g]) s0) = None
            \<and> currentAttentionState (run clk cae (frs @ [g]) s0) = Awake"
  proof (cases "enabled (snd g)")
    case True
    then have op: "countsOpen cae g"
      using assms(5) by (simp add: countsOpen_showsOpenEyes)
    show ?thesis
      using open_step(2,3) [OF op run_snoc [of clk cae frs g s0]] by simp
  next
    case False
    show ?thesis
      using disabled_step(2,3) [OF False run_snoc [of clk cae frs g s0]]
        prefix [of "length frs"] by simp
  qed
  have all: "\<forall>k \<le> length (frs @ [g]).
            eyesClosedStartTime (run clk cae (take k (frs @ [g])) s0) = None
            \<and> currentAttentionState (run clk cae (take k (frs @ [g])) s0) = Awake"
  proof (intro allI impI)
    fix k assume k: "k \<le> length (frs @ [g])"
    show "eyesClosedStartTime (run clk cae (take k (frs @ [g])) s0) = None
            \<and> currentAttentionState (run clk cae (take k (frs @ [g])) s0) = Awake"
    proof (cases "k \<le> length frs")
      case True
      then show ?thesis using prefix [of k] by simp
    next
      case False
      then have "take k (frs @ [g]) = frs @ [g]" using k by simp
      then show ?thesis using final by simp
    qed
  qed
  then have "\<forall>m \<in> set (emitted s0 (run clk cae (frs @ [g]) s0)).
            \<not> is_alert m \<and> durationOf m = Fin 0"
    using quiet_run [of "frs @ [g]" clk cae s0] by blast
  then show ?thesis using all by blast
qed

text \<open>
  The witness is the spec's example: ten frames with EAR 0.1 under threshold 0.2, then one
  frame with EAR 0.3.
\<close>

theorem blink_filtering_witness:
  "closedFrameCount (exampleRun []) = 0
   \<and> length (filter (countsClosed computeAverageEAR)
        (replicate 10 (Some closedEyes, scenarioSettings))) = 10
   \<and> showsOpenEyes computeAverageEAR (Some openEyes, scenarioSettings)
   \<and> eyesClosedStartTime
        (exampleRun (replicate 10 (Some closedEyes, scenarioSettings))) = None
   \<and> currentAttentionState
        (exampleRun (replicate 10 (Some closedEyes, scenarioSettings))) = Awake
   \<and> eyesClosedStartTime
        (exampleRun (replicate 10 (Some closedEyes, scenarioSettings)
                     @ [(Some openEyes, scenarioSettings)])) = None
   \<and> currentAttentionState
        (exampleRun (replicate 10 (Some closedEyes, scenarioSettings)
                     @ [(Some openEyes, scenarioSettings)])) = Awake
   \<and> ATTENTION_UPDATE Awake (Fin (85 / 100)) (Fin (1 / 10)) (Fin 0) 20000
        \<in> set (emitted (exampleRun [])
             (exampleRun (replicate 10 (Some closedEyes, scenarioSettings)
                          @ [(Some openEyes, scenarioSettings)])))
   \<and> \<not> is_alert (ATTENTION_UPDATE Awake (Fin (85 / 100)) (Fin (1 / 10)) (Fin 0) 20000)
   \<and> durationOf (ATTENTION_UPDATE Awake (Fin (85 / 100)) (Fin (1 / 10)) (Fin 0) 20000) = Fin 0"
proof -
  let ?frs = "replicate 10 (Some closedEyes, scenarioSettings)"
  let ?g = "(Some openEyes, scenarioSettings)"
  let ?s0 = "run secondClock computeAverageEAR [] (initialState secondClock)"
  have s0: "closedFrameCount ?s0 = 0" by code_simp
  have cl: "\<forall>f \<in> set ?frs. countsClosed computeAverageEAR f \<or> \<not> enabled (snd f)"
    by code_simp
  have n: "length (filter (countsClosed computeAverageEAR) ?frs) = 10" by code_simp
  then have lt: "length (filter (countsClosed computeAverageEAR) ?frs) < MIN_CLOSED_FRAMES"
    by (simp add: MIN_CLOSED_FRAMES_def)
  have op: "showsOpenEyes computeAverageEAR ?g" by code_simp
  have m: "ATTENTION_UPDATE Awake (Fin (85 / 100)) (Fin (1 / 10)) (Fin 0) 20000
        \<in> set (emitted ?s0 (run secondClock computeAverageEAR (?frs @ [?g]) ?s0))"
    by code_simp
  note w = blink_filtering [where clk = secondClock and cae = computeAverageEAR
      and pre = "[]" and frs = ?frs and g = ?g, OF refl s0 cl lt op]
  have k10: "eyesClosedStartTime (run secondClock computeAverageEAR ?frs ?s0) = None
      \<and> currentAttentionState (run secondClock computeAverageEAR ?frs ?s0) = Awake"
    using conjunct1 [OF w, rule_format, of 10] by simp
  have k11: "eyesClosedStartTime (run secondClock computeAverageEAR (?frs @ [?g]) ?s0) = None
      \<and> currentAttentionState (run secondClock computeAverageEAR (?frs @ [?g]) ?s0) = Awake"
    using conjunct1 [OF w, rule_format, of 11] by simp
  have q: "\<not> is_alert (ATTENTION_UPDATE Awake (Fin (85 / 100)) (Fin (1 / 10)) (Fin 0) 20000)
      \<and> durationOf (ATTENTION_UPDATE Awake (Fin (85 / 100)) (Fin (1 / 10)) (Fin 0) 20000) = Fin 0"
    using conjunct2 [OF w, rule_format, OF m] by simp
  show ?thesis using s0 n op k10 k11 m q by (simp add: exampleRun_def)
qed

text \<open>
  Claim C5 as stated covers every short closure streak followed by an open frame. A frame
  that shows open eyes while the master flag is off is skipped and does not reset
  \<open>closedFrameCount\<close>, so the next closure continues the earlier count: after fourteen
  closed frames and such a skipped frame, a streak of one closed frame latches the
  timestamp and its update reports a duration of 1 s, and a streak of two closed frames
  reaches Drowsy and fires an alert before the open frame that ends it.
\<close>

theorem short_closure_latches_after_skipped_open_frame:
  "showsOpenEyes computeAverageEAR (Some openEyes, masterOff)
   \<and> eyesClosedStartTime (exampleRun blinkHistory) = None
   \<and> closedFrameCount (exampleRun blinkHistory) = 14
   \<and> eyesClosedStartTime
        (exampleRun (blinkHistory @ [(Some closedEyes, scenarioSettings)])) = Some 29000
   \<and> emitted (exampleRun blinkHistory)
        (exampleRun (blinkHistory @ [(Some closedEyes, scenarioSettings)]))
       = [ATTENTION_UPDATE Awake (Fin (85 / 100)) (Fin (1 / 10)) (Fin 1) 31000]
   \<and> currentAttentionState
        (exampleRun (blinkHistory @ [(Some closedEyes, scenarioSettings),
                                     (Some closedEyes, scenarioSettings)])) = Drowsy
   \<and> filter is_alert
        (sent (exampleRun (blinkHistory @ [(Some closedEyes, scenarioSettings),
                                           (Some closedEyes, scenarioSettings),
                                           (Some openEyes, scenarioSettings)])))
       = [DROWSINESS_DETECTED Drowsy (Fin (1 / 2)) (Fin 4)]"
  by code_simp

section \<open>The latch invariant\<close>

text \<open>
  Claim C6, as the code has it. Frames that arrive while the master flag is off are
  skipped: they change neither \<open>closedFrameCount\<close> nor \<open>eyesClosedStartTime\<close>, whatever
  they show. With that, after any sequence of frames from the initial state:
  \<open>eyesClosedStartTime\<close> is set if and only if \<open>closedFrameCount\<close> is at least
  \<open>MIN_CLOSED_FRAMES\<close>; \<open>closedFrameCount\<close> is the number of frames counted closed since
  the last frame counted open; and when the timestamp is set, it is the clock reading
  taken on the frame at which that count reached \<open>MIN_CLOSED_FRAMES\<close>, and no frame since
  then was counted open. On the next frame: a frame that is not counted open leaves a
  latched timestamp as it is (no second latch); a latch happens only on the frame at
  which the count reaches \<open>MIN_CLOSED_FRAMES\<close>, to the clock reading of that frame; a
  frame counted open clears the timestamp and the count.
\<close>

theorem latch_invariant:
  assumes "s = run clk cae frs (initialState clk)"
    and "s' = handleLandmarks clk cae (fst f) (snd f) s"
  shows "((eyesClosedStartTime s \<noteq> None) = (MIN_CLOSED_FRAMES \<le> closedFrameCount s))
       \<and> closedFrameCount s = streak cae frs
       \<and> (eyesClosedStartTime s \<noteq> None \<longrightarrow>
            (\<exists>pre g post. frs = pre @ g # post \<and> countsClosed cae g
               \<and> streak cae (pre @ [g]) = MIN_CLOSED_FRAMES
               \<and> (\<forall>h \<in> set post. \<not> countsOpen cae h)
               \<and> eyesClosedStartTime s
                   = Some (clk (ticks (logFrame clk (run clk cae pre (initialState clk)))))))
       \<and> (\<not> countsOpen cae f \<and> eyesClosedStartTime s \<noteq> None
            \<longrightarrow> eyesClosedStartTime s' = eyesClosedStartTime s)
       \<and> (\<not> countsOpen cae f \<and> eyesClosedStartTime s = None \<and> eyesClosedStartTime s' \<noteq> None
            \<longrightarrow> closedFrameCount s' = MIN_CLOSED_FRAMES
               \<and> eyesClosedStartTime s' = Some (clk (ticks (logFrame clk s))))
       \<and> (countsOpen cae f \<longrightarrow> closedFrameCount s' = 0 \<and> eyesClosedStartTime s' = None)
       \<and> (\<not> enabled (snd f) \<longrightarrow>
            closedFrameCount s' = closedFrameCount s
            \<and> eyesClosedStartTime s' = eyesClosedStartTime s)"
proof -
  have inv: "tracking_inv s"
    using assms(1) tracking_inv_run [OF tracking_inv_init] by simp
  have a: "(eyesClosedStartTime s \<noteq> None) = (MIN_CLOSED_FRAMES \<le> closedFrameCount s)"
    using inv by (simp add: tracking_inv_def)
  have b: "closedFrameCount s = streak cae frs"
    using assms(1) count_is_streak by simp
  have h: "\<exists>pre g post. frs = pre @ g # post \<and> countsClosed cae g
               \<and> streak cae (pre @ [g]) = MIN_CLOSED_FRAMES
               \<and> (\<forall>h \<in> set post. \<not> countsOpen cae h)
               \<and> eyesClosedStartTime s
                   = Some (clk (ticks (logFrame clk (run clk cae pre (initialState clk)))))"
    if "eyesClosedStartTime s \<noteq> None"
  proof -
    have "MIN_CLOSED_FRAMES \<le> streak cae frs" using that a b by simp
    then obtain pre g post where d: "frs = pre @ g # post" "countsClosed cae g"
        "streak cae (pre @ [g]) = MIN_CLOSED_FRAMES" "\<forall>h \<in> set post. \<not> countsOpen cae h"
      using streak_decomp by blast
    have "frs = (pre @ [g]) @ post" using d(1) by simp
    then have "s = run clk cae post (run clk cae (pre @ [g]) (initialState clk))"
      using assms(1) run_append by metis
    then have "eyesClosedStartTime s
        = Some (clk (ticks (logFrame clk (run clk cae pre (initialState clk)))))"
      using keep_latched_run [OF latch_value [OF d(2,3)] d(4)] by simp
    then show ?thesis using d by blast
  qed
  have c: "eyesClosedStartTime s' = eyesClosedStartTime s"
    if "\<not> countsOpen cae f \<and> eyesClosedStartTime s \<noteq> None"
    using that keep_latched [of s _ cae f clk] assms(2) by auto
  have d: "closedFrameCount s' = MIN_CLOSED_FRAMES
        \<and> eyesClosedStartTime s' = Some (clk (ticks (logFrame clk s)))"
    if h: "\<not> countsOpen cae f \<and> eyesClosedStartTime s = None \<and> eyesClosedStartTime s' \<noteq> None"
  proof (cases "countsClosed cae f")
    case True
    have lt: "closedFrameCount s < MIN_CLOSED_FRAMES" using a h by auto
    have ge: "MIN_CLOSED_FRAMES \<le> closedFrameCount s + 1"
      using closed_step(2) [OF True assms(2)] h by (auto split: if_splits)
    have "eyesClosedStartTime s' = Some (clk (ticks (logFrame clk s)))"
      using closed_step(2) [OF True assms(2)] h ge by simp
    then show ?thesis using closed_step(1) [OF True assms(2)] lt ge by simp
  next
    case False
    then have "\<not> enabled (snd f)" using h frame_classes(1) by blast
    then show ?thesis using disabled_step(2) [OF _ assms(2)] h by simp
  qed
  have e: "closedFrameCount s' = 0 \<and> eyesClosedStartTime s' = None" if "countsOpen cae f"
    using open_step(1,2) [OF that assms(2)] by simp
  have g: "closedFrameCount s' = closedFrameCount s
        \<and> eyesClosedStartTime s' = eyesClosedStartTime s" if "\<not> enabled (snd f)"
    using disabled_step(1,2) [OF that assms(2)] by simp
  show ?thesis using a b h c d e g by blast
qed

theorem latch_invariant_witness:
  "eyesClosedStartTime (exampleRun (replicate 14 (None, scenarioSettings))) = None
   \<and> closedFrameCount (exampleRun (replicate 14 (None, scenarioSettings))) = 14
   \<and> streak computeAverageEAR (replicate 14 (None, scenarioSettings)) = 14
   \<and> \<not> countsOpen computeAverageEAR (None, scenarioSettings)
   \<and> eyesClosedStartTime
        (handleLandmarks secondClock computeAverageEAR None scenarioSettings
           (exampleRun (replicate 14 (None, scenarioSettings))))
       = Some (secondClock (ticks (logFrame secondClock
                                     (exampleRun (replicate 14 (None, scenarioSettings))))))
   \<and> secondClock (ticks (logFrame secondClock
                            (exampleRun (replicate 14 (None, scenarioSettings))))) = 1000
   \<and> closedFrameCount
        (handleLandmarks secondClock computeAverageEAR None scenarioSettings
           (exampleRun (replicate 14 (None, scenarioSettings)))) = MIN_CLOSED_FRAMES
   \<and> eyesClosedStartTime (exampleRun (replicate 16 (None, scenarioSettings))) = Some 1000
   \<and> \<not> countsOpen computeAverageEAR (Some closedEyes, scenarioSettings)
   \<and> eyesClosedStartTime
        (handleLandmarks secondClock computeAverageEAR (Some closedEyes) scenarioSettings
           (exampleRun (replicate 16 (None, scenarioSettings)))) = Some 1000
   \<and> countsOpen computeAverageEAR (Some openEyes, scenarioSettings)
   \<and> eyesClosedStartTime
        (handleLandmarks secondClock computeAverageEAR (Some openEyes) scenarioSettings
           (exampleRun (replicate 16 (None, scenarioSettings)))) = None
   \<and> \<not> enabled (snd (Some openEyes, masterOff))
   \<and> eyesClosedStartTime
        (handleLandmarks secondClock computeAverageEAR (Some openEyes) masterOff
           (exampleRun (replicate 16 (None, scenarioSettings)))) = Some 1000"
proof -
  let ?a = "exampleRun (replicate 14 (None, scenarioSettings))"
  let ?a' = "handleLandmarks secondClock computeAverageEAR None scenarioSettings ?a"
  let ?b = "exampleRun (replicate 16 (None, scenarioSettings))"
  have facts: "eyesClosedStartTime ?a = None"
      "eyesClosedStartTime ?a' \<noteq> None"
      "secondClock (ticks (logFrame secondClock ?a)) = 1000"
      "eyesClosedStartTime ?b = Some 1000"
      "\<not> countsOpen computeAverageEAR (None, scenarioSettings)"
      "\<not> countsOpen computeAverageEAR (Some closedEyes, scenarioSettings)"
      "countsOpen computeAverageEAR (Some openEyes, scenarioSettings)"
      "\<not> enabled (snd (Some openEyes, masterOff))"
      "streak computeAverageEAR (replicate 14 (None, scenarioSettings)) = 14"
    by code_simp+
  note w1 = latch_invariant [where clk = secondClock and cae = computeAverageEAR
      and frs = "replicate 14 (None, scenarioSettings)" and f = "(None, scenarioSettings)"
      and s = ?a, OF exampleRun_def refl]
  note w2 = latch_invariant [where clk = secondClock and cae = computeAverageEAR
      and frs = "replicate 16 (None, scenarioSettings)" and f = "(Some closedEyes, scenarioSettings)"
      and s = ?b, OF exampleRun_def refl]
  note w3 = latch_invariant [where clk = secondClock and cae = computeAverageEAR
      and frs = "replicate 16 (None, scenarioSettings)" and f = "(Some openEyes, scenarioSettings)"
      and s = ?b, OF exampleRun_def refl]
  note w4 = latch_invariant [where clk = secondClock and cae = computeAverageEAR
      and frs = "replicate 16 (None, scenarioSettings)" and f = "(Some openEyes, masterOff)"
      and s = ?b, OF exampleRun_def refl]
  have l: "closedFrameCount ?a' = MIN_CLOSED_FRAMES
      \<and> eyesClosedStartTime ?a' = Some (secondClock (ticks (logFrame secondClock ?a)))"
    using w1 facts(1,2,5) by simp
  have c14: "closedFrameCount ?a = 14" using w1 facts(9) by simp
  have k: "eyesClosedStartTime
        (handleLandmarks secondClock computeAverageEAR (Some closedEyes) scenarioSettings ?b)
       = Some 1000"
    using w2 facts(4,6) by simp
  have o: "eyesClosedStartTime
        (handleLandmarks secondClock computeAverageEAR (Some openEyes) scenarioSettings ?b)
       = None"
    using w3 facts(7) by simp
  have d: "eyesClosedStartTime
        (handleLandmarks secondClock computeAverageEAR (Some openEyes) masterOff ?b)
       = Some 1000"
    using w4 facts(4,8) by simp
  show ?thesis using facts l c14 k o d by simp
qed

text \<open>
  Claim C6 as stated says that every frame since the timestamp has been counted closed
  and that the timestamp is cleared on the first open frame. A frame that shows open eyes
  while the master flag is off is neither counted closed nor does it clear anything:
  after fifteen frames without a face and one such frame the timestamp is still set.
\<close>

theorem timestamp_survives_skipped_open_frame:
  "showsOpenEyes computeAverageEAR (Some openEyes, masterOff)
   \<and> eyesClosedStartTime (exampleRun (replicate 15 (None, scenarioSettings))) = Some 1000
   \<and> eyesClosedStartTime
        (exampleRun (replicate 15 (None, scenarioSettings) @ [(Some openEyes, masterOff)]))
       = Some 1000
   \<and> closedFrameCount
        (exampleRun (replicate 15 (None, scenarioSettings) @ [(Some openEyes, masterOff)]))
       = 15"
  by code_simp

section \<open>Recovery on an open frame\<close>

text \<open>
  Claim C7, as the code has it. On a frame with a face whose averaged EAR is at least
  \<open>earThreshold\<close>, processed with the master flag set, the state after the frame is Awake,
  \<open>closedFrameCount\<close> is 0 and \<open>eyesClosedStartTime\<close> is unset, whatever the state before.
\<close>

theorem open_frame_resets:
  assumes "enabled stg"
    and "num_ge (cae (leftEyeEAR lm) (rightEyeEAR lm)) (earThreshold (thresholds stg))"
    and "s' = handleLandmarks clk cae (Some lm) stg s"
  shows "currentAttentionState s' = Awake \<and> closedFrameCount s' = 0 \<and> eyesClosedStartTime s' = None"
  using assms by (simp add: handle_face faceBranch_fields dAS_fst num_ge_not_lt)

theorem open_frame_resets_witness:
  "enabled scenarioSettings
   \<and> num_ge (computeAverageEAR (leftEyeEAR openEyes) (rightEyeEAR openEyes))
        (earThreshold (thresholds scenarioSettings))
   \<and> currentAttentionState (exampleRun (replicate 17 (Some closedEyes, scenarioSettings))) = Microsleep
   \<and> closedFrameCount (exampleRun (replicate 17 (Some closedEyes, scenarioSettings))) = 17
   \<and> currentAttentionState
        (handleLandmarks secondClock computeAverageEAR (Some openEyes) scenarioSettings
           (exampleRun (replicate 17 (Some closedEyes, scenarioSettings)))) = Awake
   \<and> closedFrameCount
        (handleLandmarks secondClock computeAverageEAR (Some openEyes) scenarioSettings
           (exampleRun (replicate 17 (Some closedEyes, scenarioSettings)))) = 0
   \<and> eyesClosedStartTime
        (handleLandmarks secondClock computeAverageEAR (Some openEyes) scenarioSettings
           (exampleRun (replicate 17 (Some closedEyes, scenarioSettings)))) = None"
proof -
  have en: "enabled scenarioSettings" by (simp add: scenarioSettings_def)
  have ge: "num_ge (computeAverageEAR (leftEyeEAR openEyes) (rightEyeEAR openEyes))
        (earThreshold (thresholds scenarioSettings))"
    by code_simp
  have before: "currentAttentionState (exampleRun (replicate 17 (Some closedEyes, scenarioSettings))) = Microsleep
      \<and> closedFrameCount (exampleRun (replicate 17 (Some closedEyes, scenarioSettings))) = 17"
    by code_simp
  show ?thesis
    using en ge before
      open_frame_resets [where clk = secondClock and cae = computeAverageEAR and lm = openEyes
        and s = "exampleRun (replicate 17 (Some closedEyes, scenarioSettings))", OF en ge refl]
    by simp
qed

text \<open>
  Claim C7 as stated covers every frame with a face and an EAR at or above the threshold.
  While the master flag is off \<open>handleLandmarks\<close> returns before it looks at the frame: a
  Drowsy state with a streak of 16 and a latched timestamp stays as it is.
\<close>

theorem open_frame_ignored_when_disabled:
  "num_ge (computeAverageEAR (leftEyeEAR openEyes) (rightEyeEAR openEyes))
          (earThreshold (thresholds masterOff))
   \<and> currentAttentionState
        (handleLandmarks secondClock computeAverageEAR (Some openEyes) masterOff
           (exampleRun (replicate 16 (None, scenarioSettings)))) = Drowsy
   \<and> closedFrameCount
        (handleLandmarks secondClock computeAverageEAR (Some openEyes) masterOff
           (exampleRun (replicate 16 (None, scenarioSettings)))) = 16
   \<and> eyesClosedStartTime
        (handleLandmarks secondClock computeAverageEAR (Some openEyes) masterOff
           (exampleRun (replicate 16 (None, scenarioSettings)))) = Some 1000"
  by code_simp

section \<open>Where the state is assigned\<close>

text \<open>
  Claim C8, as the code has it. \<open>currentAttentionState\<close> is left alone while the master
  flag is off; on a frame with a face it becomes the value \<open>determineAttentionState\<close>
  returns; on a frame without a face \<open>determineAttentionState\<close> is not called and the
  no-face branch assigns the state itself: nothing before the streak reaches
  \<open>MIN_CLOSED_FRAMES\<close>, and from then on, with both detectors enabled, Microsleep when
  the branch's own closed duration reaches \<open>microsleepSeconds\<close>, otherwise Drowsy when it
  reaches \<open>drowsySeconds\<close>, and otherwise no assignment. What the branch does when a
  detector is disabled is the subject of claim C1 and is not part of this statement.
\<close>

theorem state_assignment_paths:
  assumes "s' = handleLandmarks clk cae lmo stg s"
  shows "(\<not> enabled stg \<longrightarrow> currentAttentionState s' = currentAttentionState s)
       \<and> (\<forall>lm. enabled stg \<and> lmo = Some lm \<longrightarrow>
            currentAttentionState s'
              = fst (determineAttentionState clk (cae (leftEyeEAR lm) (rightEyeEAR lm)) stg
                       (logFrame clk s)))
       \<and> (enabled stg \<and> lmo = None \<and> closedFrameCount s + 1 < MIN_CLOSED_FRAMES \<longrightarrow>
            currentAttentionState s' = currentAttentionState s)
       \<and> (enabled stg \<and> lmo = None \<and> MIN_CLOSED_FRAMES \<le> closedFrameCount s + 1
            \<and> drowsiness (detectors stg) \<and> microsleep (detectors stg) \<longrightarrow>
            currentAttentionState s'
              = (if num_ge (noFaceDuration clk (logFrame clk s))
                      (microsleepSeconds (thresholds stg)) then Microsleep
                 else if num_ge (noFaceDuration clk (logFrame clk s))
                      (drowsySeconds (thresholds stg)) then Drowsy
                 else currentAttentionState s))"
proof (intro conjI impI allI)
  assume "\<not> enabled stg"
  then show "currentAttentionState s' = currentAttentionState s"
    using assms by (simp add: handle_disabled)
next
  fix lm assume "enabled stg \<and> lmo = Some lm"
  then show "currentAttentionState s'
      = fst (determineAttentionState clk (cae (leftEyeEAR lm) (rightEyeEAR lm)) stg
               (logFrame clk s))"
    using assms by (simp add: handle_face faceBranch_fields)
next
  assume "enabled stg \<and> lmo = None \<and> closedFrameCount s + 1 < MIN_CLOSED_FRAMES"
  then show "currentAttentionState s' = currentAttentionState s"
    using assms by (simp add: handle_noface noFaceBranch_state)
next
  assume "enabled stg \<and> lmo = None \<and> MIN_CLOSED_FRAMES \<le> closedFrameCount s + 1
            \<and> drowsiness (detectors stg) \<and> microsleep (detectors stg)"
  then show "currentAttentionState s'
      = (if num_ge (noFaceDuration clk (logFrame clk s))
              (microsleepSeconds (thresholds stg)) then Microsleep
         else if num_ge (noFaceDuration clk (logFrame clk s))
              (drowsySeconds (thresholds stg)) then Drowsy
         else currentAttentionState s)"
    using assms by (simp add: handle_noface noFaceBranch_state)
qed

theorem state_assignment_paths_witness:
  "enabled scenarioSettings
   \<and> drowsiness (detectors scenarioSettings) \<and> microsleep (detectors scenarioSettings)
   \<and> MIN_CLOSED_FRAMES \<le> closedFrameCount (exampleRun (replicate 18 (None, scenarioSettings))) + 1
   \<and> currentAttentionState (exampleRun (replicate 18 (None, scenarioSettings))) = Drowsy
   \<and> currentAttentionState
        (handleLandmarks secondClock computeAverageEAR None scenarioSettings
           (exampleRun (replicate 18 (None, scenarioSettings)))) = Microsleep
   \<and> currentAttentionState
        (handleLandmarks secondClock computeAverageEAR (Some closedEyes) scenarioSettings
           (exampleRun (replicate 16 (Some closedEyes, scenarioSettings))))
       = fst (determineAttentionState secondClock
                (computeAverageEAR (leftEyeEAR closedEyes) (rightEyeEAR closedEyes))
                scenarioSettings
                (logFrame secondClock (exampleRun (replicate 16 (Some closedEyes, scenarioSettings)))))
   \<and> currentAttentionState
        (handleLandmarks secondClock computeAverageEAR (Some closedEyes) masterOff
           (exampleRun (replicate 16 (Some closedEyes, scenarioSettings)))) = Drowsy"
proof -
  let ?s = "exampleRun (replicate 18 (None, scenarioSettings))"
  let ?t = "exampleRun (replicate 16 (Some closedEyes, scenarioSettings))"
  have en: "enabled scenarioSettings" "drowsiness (detectors scenarioSettings)"
      "microsleep (detectors scenarioSettings)" "\<not> enabled masterOff"
    by (simp_all add: scenarioSettings_def masterOff_def)
  have pre: "MIN_CLOSED_FRAMES \<le> closedFrameCount ?s + 1" "currentAttentionState ?s = Drowsy"
      "currentAttentionState ?t = Drowsy"
    by code_simp+
  have r: "(if num_ge (noFaceDuration secondClock (logFrame secondClock ?s))
                (microsleepSeconds (thresholds scenarioSettings)) then Microsleep
            else if num_ge (noFaceDuration secondClock (logFrame secondClock ?s))
                (drowsySeconds (thresholds scenarioSettings)) then Drowsy
            else currentAttentionState ?s) = Microsleep"
    by code_simp
  note w1 = state_assignment_paths [where clk = secondClock and cae = computeAverageEAR
      and lmo = None and stg = scenarioSettings and s = ?s, OF refl]
  note w2 = state_assignment_paths [where clk = secondClock and cae = computeAverageEAR
      and lmo = "Some closedEyes" and stg = scenarioSettings and s = ?t, OF refl]
  note w3 = state_assignment_paths [where clk = secondClock and cae = computeAverageEAR
      and lmo = "Some closedEyes" and stg = masterOff and s = ?t, OF refl]
  have c1: "currentAttentionState
        (handleLandmarks secondClock computeAverageEAR None scenarioSettings ?s) = Microsleep"
    using w1 en pre r by simp
  have c2: "currentAttentionState
        (handleLandmarks secondClock computeAverageEAR (Some closedEyes) scenarioSettings ?t)
       = fst (determineAttentionState secondClock
                (computeAverageEAR (leftEyeEAR closedEyes) (rightEyeEAR closedEyes))
                scenarioSettings (logFrame secondClock ?t))"
    using w2 en by simp
  have c3: "currentAttentionState
        (handleLandmarks secondClock computeAverageEAR (Some closedEyes) masterOff ?t) = Drowsy"
    using w3 en pre by simp
  show ?thesis using en pre c1 c2 c3 by simp
qed

text \<open>
  Claim C8 as stated (the state only ever takes the value \<open>determineAttentionState\<close>
  returns) fails on a frame without a face, with both detectors enabled: the sixteenth
  such frame changes the state from Awake to Drowsy, and the only message it sends is the
  no-face branch's alert with its fixed confidence 0.94.
\<close>

theorem state_assigned_without_classifier:
  "enabled scenarioSettings
   \<and> drowsiness (detectors scenarioSettings) \<and> microsleep (detectors scenarioSettings)
   \<and> currentAttentionState (exampleRun (replicate 15 (None, scenarioSettings))) = Awake
   \<and> currentAttentionState
        (handleLandmarks secondClock computeAverageEAR None scenarioSettings
           (exampleRun (replicate 15 (None, scenarioSettings)))) = Drowsy
   \<and> emitted (exampleRun (replicate 15 (None, scenarioSettings)))
        (handleLandmarks secondClock computeAverageEAR None scenarioSettings
           (exampleRun (replicate 15 (None, scenarioSettings))))
       = [DROWSINESS_DETECTED Drowsy (Fin (94 / 100)) (Fin 2)]"
  by code_simp

section \<open>The confidence carried by the messages\<close>

text \<open>
  Claim C10. Every periodic attention-update message carries the constant confidence
  0.85, whatever the current state, the measured EAR and the closed duration: after any
  sequence of frames from the initial state, with any settings, clock and averaging
  function, every \<open>ATTENTION_UPDATE\<close> that was sent has confidence 0.85.
\<close>

theorem update_confidence_constant:
  assumes "m \<in> set (sent (run clk cae frs (initialState clk)))"
    and "is_update m"
  shows "confidenceOf m = Fin (85 / 100)"
proof -
  let ?P = "\<lambda>m. is_update m \<longrightarrow> confidenceOf m = Fin (85 / 100)"
  have "\<forall>m \<in> set (sent (run clk cae frs (initialState clk))). ?P m"
  proof (rule run_sent_invariant)
    fix s lmo stg m
    assume "m \<in> set (emitted s (handleLandmarks clk cae lmo stg s))"
    then show "?P m"
      using emitted_update_confidence [of m s clk cae lmo stg] by blast
  next
    show "\<forall>m \<in> set (sent (initialState clk)). ?P m" by (simp add: initialState_def)
  qed
  then show ?thesis using assms by blast
qed

theorem update_confidence_constant_witness:
  "ATTENTION_UPDATE Drowsy (Fin (85 / 100)) (Fin (1 / 10)) (Fin 5) 35000
     \<in> set (sent (run secondClock computeAverageEAR
                   (replicate 16 (Some closedEyes, scenarioSettings))
                   (initialState secondClock)))
   \<and> is_update (ATTENTION_UPDATE Drowsy (Fin (85 / 100)) (Fin (1 / 10)) (Fin 5) 35000)
   \<and> confidenceOf (ATTENTION_UPDATE Drowsy (Fin (85 / 100)) (Fin (1 / 10)) (Fin 5) 35000)
       = Fin (85 / 100)"
proof -
  have h: "ATTENTION_UPDATE Drowsy (Fin (85 / 100)) (Fin (1 / 10)) (Fin 5) 35000
     \<in> set (sent (run secondClock computeAverageEAR
                   (replicate 16 (Some closedEyes, scenarioSettings))
                   (initialState secondClock)))"
    by code_simp
  show ?thesis using h update_confidence_constant [OF h] by simp
qed

text \<open>
  Claim C9. An alert sent by the no-face branch carries confidence exactly 0.99 for
  Microsleep and exactly 0.94 for Drowsy; an alert sent by the eye-closure branch carries
  confidence exactly \<open>1 - (AverageEAR / earThreshold)\<close>, as the operators compute it, with
  no clamping to the interval from 0 to 1.
\<close>

theorem alert_confidence:
  assumes "m \<in> set (emitted s (handleLandmarks clk cae lmo stg s))"
    and "m = DROWSINESS_DETECTED st c d"
  shows "case lmo of
           None \<Rightarrow> (st = Microsleep \<and> c = Fin (99 / 100)) \<or> (st = Drowsy \<and> c = Fin (94 / 100))
         | Some lm \<Rightarrow> c = num_sub (Fin 1)
                            (num_div (cae (leftEyeEAR lm) (rightEyeEAR lm))
                                     (earThreshold (thresholds stg)))"
proof (cases "enabled stg")
  case False
  then show ?thesis using assms by (simp add: emitted_disabled)
next
  case en: True
  show ?thesis
  proof (cases lmo)
    case None
    then show ?thesis using assms en by (simp add: emitted_noface split: if_splits)
  next
    case (Some lm)
    then show ?thesis using assms en
      by (simp add: emitted_face [OF en refl] faceAlerts_def Let_def split: if_splits)
  qed
qed

text \<open>
  The witness takes an alert of each branch: after 15 frames without a face the 16th sends
  the Drowsy alert with 0.94; after 15 frames with EAR -0.1 the 16th sends the Drowsy
  alert with \<open>1 - (-0.1 / 0.2) = 1.5\<close>, above 1.
\<close>

theorem alert_confidence_witness:
  "(DROWSINESS_DETECTED Drowsy (Fin (94 / 100)) (Fin 2)
      \<in> set (emitted
           (run secondClock computeAverageEAR (replicate 15 (None, scenarioSettings))
              (initialState secondClock))
           (handleLandmarks secondClock computeAverageEAR None scenarioSettings
              (run secondClock computeAverageEAR (replicate 15 (None, scenarioSettings))
                 (initialState secondClock)))))
   \<and> (DROWSINESS_DETECTED Drowsy (Fin (3 / 2)) (Fin 4)
      \<in> set (emitted
           (run secondClock computeAverageEAR (replicate 15 (Some negativeEyes, scenarioSettings))
              (initialState secondClock))
           (handleLandmarks secondClock computeAverageEAR (Some negativeEyes) scenarioSettings
              (run secondClock computeAverageEAR (replicate 15 (Some negativeEyes, scenarioSettings))
                 (initialState secondClock)))))
   \<and> Fin (3 / 2) = num_sub (Fin 1)
         (num_div (computeAverageEAR (leftEyeEAR negativeEyes) (rightEyeEAR negativeEyes))
                  (earThreshold (thresholds scenarioSettings)))"
proof -
  have h1: "DROWSINESS_DETECTED Drowsy (Fin (94 / 100)) (Fin 2)
      \<in> set (emitted
           (run secondClock computeAverageEAR (replicate 15 (None, scenarioSettings))
              (initialState secondClock))
           (handleLandmarks secondClock computeAverageEAR None scenarioSettings
              (run secondClock computeAverageEAR (replicate 15 (None, scenarioSettings))
                 (initialState secondClock))))"
    by code_simp
  have h2: "DROWSINESS_DETECTED Drowsy (Fin (3 / 2)) (Fin 4)
      \<in> set (emitted
           (run secondClock computeAverageEAR (replicate 15 (Some negativeEyes, scenarioSettings))
              (initialState secondClock))
           (handleLandmarks secondClock computeAverageEAR (Some negativeEyes) scenarioSettings
              (run secondClock computeAverageEAR (replicate 15 (Some negativeEyes, scenarioSettings))
                 (initialState secondClock))))"
    by code_simp
  show ?thesis
    using h1 h2 alert_confidence [OF h1 refl] alert_confidence [OF h2 refl] by simp
qed

end
